theory Spec2Isabelle
  imports Main "HOL-Library.Char_ord" "HOL-Library.List_Lexorder"
begin

section \<open>Text\<close>

text \<open>
  Python \<open>str\<close> and \<open>bytes\<close> values are both modelled as \<^typ>\<open>string\<close>: every text the
  script handles (dependency names, version strings, paths) is taken to be ASCII, where
  \<open>encode\<close> and \<open>decode\<close> are the identity and the built-in string order is the
  lexicographic order on character codes.
\<close>

text \<open>\<open>str.upper\<close> on ASCII text: the 26 lower-case letters change, nothing else does.\<close>

definition upper_char :: "char \<Rightarrow> char" where
  "upper_char c =
    (if c = CHR ''a'' then CHR ''A'' else if c = CHR ''b'' then CHR ''B''
     else if c = CHR ''c'' then CHR ''C'' else if c = CHR ''d'' then CHR ''D''
     else if c = CHR ''e'' then CHR ''E'' else if c = CHR ''f'' then CHR ''F''
     else if c = CHR ''g'' then CHR ''G'' else if c = CHR ''h'' then CHR ''H''
     else if c = CHR ''i'' then CHR ''I'' else if c = CHR ''j'' then CHR ''J''
     else if c = CHR ''k'' then CHR ''K'' else if c = CHR ''l'' then CHR ''L''
     else if c = CHR ''m'' then CHR ''M'' else if c = CHR ''n'' then CHR ''N''
     else if c = CHR ''o'' then CHR ''O'' else if c = CHR ''p'' then CHR ''P''
     else if c = CHR ''q'' then CHR ''Q'' else if c = CHR ''r'' then CHR ''R''
     else if c = CHR ''s'' then CHR ''S'' else if c = CHR ''t'' then CHR ''T''
     else if c = CHR ''u'' then CHR ''U'' else if c = CHR ''v'' then CHR ''V''
     else if c = CHR ''w'' then CHR ''W'' else if c = CHR ''x'' then CHR ''X''
     else if c = CHR ''y'' then CHR ''Y'' else if c = CHR ''z'' then CHR ''Z''
     else c)"

definition upper :: "string \<Rightarrow> string" where
  "upper s = map upper_char s"

text \<open>\<open>sep in s\<close> for a one-character \<open>sep\<close>.\<close>

definition contains_char :: "char \<Rightarrow> string \<Rightarrow> bool" where
  "contains_char c s = (c \<in> set s)"

section \<open>The dependency catalog\<close>

definition DEPS :: "string list" where
  "DEPS = [''asio'', ''libmpq'', ''libsmackerdec'',
           ''libzt'', ''sdl_audiolib'', ''simpleini'', ''unordered_dense'']"

definition ALWAYS_VENDORED_DEPS :: "string list" where
  "ALWAYS_VENDORED_DEPS = [''asio'', ''libmpq'', ''libsmackerdec'', ''libzt'']"

definition DEPS_NOT_VENDORED_BY_DEFAULT :: "string list" where
  "DEPS_NOT_VENDORED_BY_DEFAULT = [''googletest'', ''benchmark'', ''sdl2'', ''sdl_image'',
                                   ''libpng'', ''libfmt'', ''bzip2'', ''libsodium'']"

section \<open>Paths\<close>

text \<open>
  A \<open>pathlib.Path\<close> of the script is always absolute (it is derived from the resolved
  location of the script file). It is modelled by the list of its components below the
  root \<open>/\<close>.
\<close>

type_synonym path = "string list"

text \<open>\<open>str(p)\<close>: the components joined by \<open>/\<close> after the root.\<close>

fun join_with :: "string \<Rightarrow> string list \<Rightarrow> string" where
  "join_with sep [] = []"
| "join_with sep [x] = x"
| "join_with sep (x # y # ys) = x @ sep @ join_with sep (y # ys)"

definition path_str :: "path \<Rightarrow> string" where
  "path_str p = ''/'' @ join_with ''/'' p"

text \<open>\<open>s.split(sep)\<close> for a one-character separator: never returns the empty list.\<close>

fun split_on :: "char \<Rightarrow> string \<Rightarrow> string list" where
  "split_on sep [] = [[]]"
| "split_on sep (c # cs) =
    (if c = sep then [] # split_on sep cs
     else (case split_on sep cs of
             [] \<Rightarrow> [[c]]
           | w # ws \<Rightarrow> (c # w) # ws))"

text \<open>
  The components pathlib reads out of a string: split at \<open>/\<close>, empty components and
  \<open>.\<close> dropped (\<open>..\<close> is kept).
\<close>

definition parse_parts :: "string \<Rightarrow> string list" where
  "parse_parts s = filter (\<lambda>c. c \<noteq> [] \<and> c \<noteq> ''.'') (split_on CHR ''/'' s)"

text \<open>
  \<open>p.joinpath(s)\<close>: a relative \<open>s\<close> is appended, an absolute \<open>s\<close> replaces \<open>p\<close>.
  (POSIX paths; the special root \<open>//\<close> of a string starting with exactly two slashes is
  read as \<open>/\<close>.)
\<close>

definition joinpath :: "path \<Rightarrow> string \<Rightarrow> path" where
  "joinpath p s = (case s of
                     c # _ \<Rightarrow> if c = CHR ''/'' then parse_parts s else p @ parse_parts s
                   | [] \<Rightarrow> p)"

text \<open>\<open>p.parent\<close>: the parent of the root is the root.\<close>

definition parent :: "path \<Rightarrow> path" where
  "parent p = butlast p"

text \<open>
  The module constants \<open>_ROOT_DIR\<close>, \<open>_BUILD_DIR\<close> and \<open>_ARCHIVE_DIR\<close>. The first is
  where the checkout lives (two levels above the script file), a parameter here.
\<close>

definition BUILD_DIR :: "path \<Rightarrow> path" where
  "BUILD_DIR root_dir = joinpath root_dir ''build-src-dist''"

definition ARCHIVE_DIR :: "path \<Rightarrow> path" where
  "ARCHIVE_DIR root_dir = joinpath (BUILD_DIR root_dir) ''archive''"

section \<open>Version and Paths\<close>

record Version =
  prefix :: string
  commit_sha :: string
  str :: string

definition Version_init :: "string \<Rightarrow> string \<Rightarrow> Version" where
  "Version_init p sha =
     \<lparr>prefix = p, commit_sha = sha,
      str = (if contains_char CHR ''-'' p then p @ ''-'' @ sha else p)\<rparr>"

record Paths =
  archive_top_level_dir_name :: string
  archive_top_level_dir :: path
  dist_dir :: path

definition Paths_init :: "path \<Rightarrow> Version \<Rightarrow> bool \<Rightarrow> Paths" where
  "Paths_init root_dir version fully_vendored =
    (let name0 = ''devilutionx-src'';
         name1 = (if fully_vendored then name0 @ ''-full'' else name0);
         name2 = name1 @ ''-'' @ str version;
         top = joinpath (ARCHIVE_DIR root_dir) name2
     in \<lparr>archive_top_level_dir_name = name2,
         archive_top_level_dir = top,
         dist_dir = joinpath top ''dist''\<rparr>)"

section \<open>Dependency selection\<close>

text \<open>The flag that switches the system copy of one dependency off.\<close>

definition system_off_flag :: "string \<Rightarrow> string" where
  "system_off_flag dep = ''-DDEVILUTIONX_SYSTEM_'' @ upper dep @ ''=OFF''"

text \<open>
  The dependencies whose flag \<open>main\<close> appends to the configure arguments, in the order
  of the two loops: the sorted set difference first, then, when fully vendored, the
  not-vendored-by-default list as it is written.
\<close>

definition system_off_deps :: "bool \<Rightarrow> string list" where
  "system_off_deps fully_vendored =
     sorted_list_of_set (set DEPS - set ALWAYS_VENDORED_DEPS)
     @ (if fully_vendored then DEPS_NOT_VENDORED_BY_DEFAULT else [])"

definition configure_args :: "path \<Rightarrow> bool \<Rightarrow> string list" where
  "configure_args root_dir fully_vendored =
     [''-S'' @ path_str root_dir, ''-B'' @ path_str (BUILD_DIR root_dir),
      ''-DBUILD_ASSETS_MPQ=ON'']
     @ map system_off_flag (sorted_list_of_set (set DEPS - set ALWAYS_VENDORED_DEPS))
     @ (if fully_vendored
        then map system_off_flag DEPS_NOT_VENDORED_BY_DEFAULT @ [''-DDISCORD_INTEGRATION=ON'']
        else [])"

text \<open>The dependencies whose fetched source tree \<open>main\<close> copies into \<open>dist\<close>.\<close>

definition copy_deps :: "bool \<Rightarrow> string list" where
  "copy_deps fully_vendored =
     DEPS @ (if fully_vendored then DEPS_NOT_VENDORED_BY_DEFAULT else [])"

section \<open>Regular expressions\<close>

text \<open>
  The three patterns of the script use literals, alternatives, optional characters and
  the anchors \<open>^\<close> and \<open>$\<close>; none repeats. A pattern is matched from a position of the
  subject: whether the position is the start of the subject, and the text that is
  left. \<open>matches r pos\<close> lists the positions at which a match of \<open>r\<close> that begins at
  \<open>pos\<close> can end. Without the \<open>MULTILINE\<close> flag, \<open>^\<close> matches at the start of the
  subject only, and \<open>$\<close> at its end or before a newline that ends it.
\<close>

datatype rx = Eps | Chr char | Bol | Eol | Seq rx rx | Alt rx rx

fun matches :: "rx \<Rightarrow> bool \<times> string \<Rightarrow> (bool \<times> string) list" where
  "matches Eps pos = [pos]"
| "matches (Chr c) (at_start, s) =
     (case s of [] \<Rightarrow> [] | x # xs \<Rightarrow> if x = c then [(False, xs)] else [])"
| "matches Bol (at_start, s) = (if at_start then [(at_start, s)] else [])"
| "matches Eol (at_start, s) =
     (if s = [] \<or> s = [CHR 0x0A] then [(at_start, s)] else [])"
| "matches (Seq r1 r2) pos = concat (map (matches r2) (matches r1 pos))"
| "matches (Alt r1 r2) pos = matches r1 pos @ matches r2 pos"

text \<open>\<open>re.search\<close>, as a truth value: a match begins at some position of the subject.\<close>

fun search_from :: "rx \<Rightarrow> bool \<Rightarrow> string \<Rightarrow> bool" where
  "search_from r at_start [] = (matches r (at_start, []) \<noteq> [])"
| "search_from r at_start (c # cs) =
     (if matches r (at_start, c # cs) \<noteq> [] then True else search_from r False cs)"

definition re_search :: "rx \<Rightarrow> string \<Rightarrow> bool" where
  "re_search r s = search_from r True s"

text \<open>Pattern syntax: a literal text, \<open>r?\<close>, and an alternative of several branches.\<close>

primrec lit :: "string \<Rightarrow> rx" where
  "lit [] = Eps"
| "lit (c # cs) = Seq (Chr c) (lit cs)"

definition opt :: "rx \<Rightarrow> rx" where
  "opt r = Alt r Eps"

fun alts :: "rx list \<Rightarrow> rx" where
  "alts [r] = r"
| "alts (r # rs) = Alt r (alts rs)"
| "alts [] = Eps"

text \<open>
  \<^verbatim>\<open>(/|^)\.|(/|^)(tests?|other|vcx?proj|examples?|doxygen|docs?|asio-src/asio/src)(/|$)\<close>
\<close>

definition IGNORE_DEP_DIR_RE :: rx where
  "IGNORE_DEP_DIR_RE =
     Alt (Seq (Alt (Chr CHR ''/'') Bol) (Chr CHR ''.''))
         (Seq (Alt (Chr CHR ''/'') Bol)
           (Seq (alts [Seq (lit ''test'') (opt (Chr CHR ''s'')),
                       lit ''other'',
                       Seq (lit ''vc'') (Seq (opt (Chr CHR ''x'')) (lit ''proj'')),
                       Seq (lit ''example'') (opt (Chr CHR ''s'')),
                       lit ''doxygen'',
                       Seq (lit ''doc'') (opt (Chr CHR ''s'')),
                       lit ''asio-src/asio/src''])
                (Alt (Chr CHR ''/'') Eol)))"

text \<open>
  \<^verbatim>\<open>(^\.|Makefile|vcx?proj|example|doxygen|docs?|\.(doxy|cmd|png|html|ico|icns)$)\<close>
\<close>

definition IGNORE_DEP_FILE_RE :: rx where
  "IGNORE_DEP_FILE_RE =
     alts [Seq Bol (Chr CHR ''.''),
           lit ''Makefile'',
           Seq (lit ''vc'') (Seq (opt (Chr CHR ''x'')) (lit ''proj'')),
           lit ''example'',
           lit ''doxygen'',
           Seq (lit ''doc'') (opt (Chr CHR ''s'')),
           Seq (Chr CHR ''.'')
             (Seq (alts [lit ''doxy'', lit ''cmd'', lit ''png'', lit ''html'', lit ''ico'',
                         lit ''icns''])
                  Eol)]"

text \<open>\<^verbatim>\<open>(^|/)\.gitkeep$\<close>, the test of the source collector.\<close>

definition GITKEEP_RE :: rx where
  "GITKEEP_RE = Seq (Alt Bol (Chr CHR ''/'')) (Seq (lit ''.gitkeep'') Eol)"

section \<open>The filter of the dependency copier\<close>

text \<open>\<open>s.startswith(p)\<close>, \<open>s.endswith(p)\<close> and \<open>p in s\<close> on strings.\<close>

fun startswith :: "string \<Rightarrow> string \<Rightarrow> bool" where
  "startswith s [] = True"
| "startswith [] (p # ps) = False"
| "startswith (c # cs) (p # ps) = (c = p \<and> startswith cs ps)"

definition endswith :: "string \<Rightarrow> string \<Rightarrow> bool" where
  "endswith s p = startswith (rev s) (rev p)"

fun contains_str :: "string \<Rightarrow> string \<Rightarrow> bool" where
  "contains_str p [] = (p = [])"
| "contains_str p (c # cs) = (if startswith (c # cs) p then True else contains_str p cs)"

text \<open>
  What the \<open>ignore\<close> callback of \<open>shutil.copytree\<close> gives back is only ever used in the
  test \<open>name in ignored_names\<close>, once for each entry of the directory. The callback of
  the script returns a list in two of its branches and the iterator
  \<open>filter(ignore_name, names)\<close> in the third. A list can be asked any number of times.
  An iterator yields each of its names once: the test reads it up to the first name that
  is equal, or to its end, and what it has read is gone for the tests that follow.
\<close>

datatype ignored = Listed "string list" | Iterated "string list"

fun read_until :: "string \<Rightarrow> string list \<Rightarrow> bool \<times> string list" where
  "read_until name [] = (False, [])"
| "read_until name (y # ys) = (if y = name then (True, ys) else read_until name ys)"

fun name_in :: "string \<Rightarrow> ignored \<Rightarrow> bool \<times> ignored" where
  "name_in name (Listed l) = (name \<in> set l, Listed l)"
| "name_in name (Iterated it) =
     (case read_until name it of (found, rest) \<Rightarrow> (found, Iterated rest))"

text \<open>
  The entries of a directory that \<open>copytree\<close> passes over, given what the callback
  returned for it: it goes through the entries in the order it listed them and asks
  for each \<open>srcentry.name in ignored_names\<close>.
\<close>

fun copytree_skips :: "ignored \<Rightarrow> string list \<Rightarrow> string list" where
  "copytree_skips ig [] = []"
| "copytree_skips ig (e # es) =
     (case name_in e ig of
        (True, ig') \<Rightarrow> e # copytree_skips ig' es
      | (False, ig') \<Rightarrow> copytree_skips ig' es)"

text \<open>
  \<open>ignore_dep_src(src, names)\<close> is the \<open>ignore\<close> callback handed to \<open>shutil.copytree\<close>,
  called with the directory \<open>src\<close> being copied and the names of its entries. The
  iterator of the third branch yields the names that \<open>ignore_name\<close> accepts, in the order
  of \<open>names\<close>. The debug log lines have no effect (the logger's level is \<open>INFO\<close>) and are
  left out.
\<close>

definition ignore_name :: "string \<Rightarrow> bool" where
  "ignore_name name =
     (if re_search IGNORE_DEP_FILE_RE name \<or> re_search IGNORE_DEP_DIR_RE name
      then True else False)"

definition ignore_dep_src :: "string \<Rightarrow> string list \<Rightarrow> ignored" where
  "ignore_dep_src src names =
     (if contains_str ''sdl_audiolib'' src
      then Listed (filter (\<lambda>name. endswith src ''/sdl_audiolib-src/3rdparty/fmt'') names)
      else if re_search IGNORE_DEP_DIR_RE src then Listed names
      else Iterated (filter ignore_name names))"

section \<open>The file system\<close>

text \<open>
  The script works on one file system through \<open>pathlib\<close>, \<open>shutil\<close> and \<open>open\<close>. The
  model has directories and regular files with their content; symbolic links, file
  metadata and permissions are left out. An entry is visible only through its parent
  directories, as a path lookup of the operating system goes: the root is a directory,
  and a path whose parent is missing or is a regular file cannot be reached.
\<close>

datatype node = Dir | File string

type_synonym filesystem = "path \<Rightarrow> node option"

datatype error =
    FileNotFoundError
  | FileExistsError
  | NotADirectoryError
  | IsADirectoryError
  | SameFileError
  | OtherError string

text \<open>
  \<open>check_dirs fs pre cs\<close> walks from the directory \<open>pre\<close> through the components \<open>cs\<close>,
  each of which has to be a directory: the error of the first that is not.
\<close>

fun check_dirs :: "filesystem \<Rightarrow> path \<Rightarrow> string list \<Rightarrow> error option" where
  "check_dirs fs pre [] = None"
| "check_dirs fs pre (c # cs) =
     (case fs (pre @ [c]) of
        None \<Rightarrow> Some FileNotFoundError
      | Some (File content) \<Rightarrow> Some NotADirectoryError
      | Some Dir \<Rightarrow> check_dirs fs (pre @ [c]) cs)"

text \<open>
  What a path names: an error when its parent cannot be reached, otherwise the entry
  (\<open>None\<close> when there is none).
\<close>

definition resolve :: "filesystem \<Rightarrow> path \<Rightarrow> error + node option" where
  "resolve fs p =
     (if p = [] then Inr (Some Dir)
      else case check_dirs fs [] (butlast p) of
             Some e \<Rightarrow> Inl e
           | None \<Rightarrow> Inr (fs p))"

text \<open>\<open>Path.exists()\<close> and \<open>Path.is_dir()\<close> (\<open>os.path.isdir\<close>): false on every error.\<close>

definition exists :: "path \<Rightarrow> filesystem \<Rightarrow> bool" where
  "exists p fs = (case resolve fs p of Inr (Some n) \<Rightarrow> True | _ \<Rightarrow> False)"

definition is_dir :: "path \<Rightarrow> filesystem \<Rightarrow> bool" where
  "is_dir p fs = (resolve fs p = Inr (Some Dir))"

text \<open>\<open>os.mkdir(p)\<close>.\<close>

definition os_mkdir :: "path \<Rightarrow> filesystem \<Rightarrow> error + filesystem" where
  "os_mkdir p fs =
     (case resolve fs p of
        Inl e \<Rightarrow> Inl e
      | Inr (Some n) \<Rightarrow> Inl FileExistsError
      | Inr None \<Rightarrow> Inr (fs(p \<mapsto> Dir)))"

text \<open>
  \<open>Path.mkdir(parents=False, exist_ok=...)\<close>: a missing parent is an error; any other
  error of \<open>os.mkdir\<close> is swallowed when \<open>exist_ok\<close> is set and the path is a directory.
\<close>

definition mkdir :: "path \<Rightarrow> bool \<Rightarrow> filesystem \<Rightarrow> error + filesystem" where
  "mkdir p exist_ok fs =
     (case os_mkdir p fs of
        Inr fs' \<Rightarrow> Inr fs'
      | Inl FileNotFoundError \<Rightarrow> Inl FileNotFoundError
      | Inl e \<Rightarrow> if \<not> exist_ok \<or> \<not> is_dir p fs then Inl e else Inr fs)"

text \<open>
  \<open>Path.mkdir(parents=True, exist_ok=...)\<close>: when the parent is missing it is made first,
  with \<open>parents=True, exist_ok=True\<close>, and the directory itself is then made without
  \<open>parents\<close>.
\<close>

function mkdir_parents :: "path \<Rightarrow> bool \<Rightarrow> filesystem \<Rightarrow> error + filesystem" where
  "mkdir_parents p exist_ok fs =
     (case os_mkdir p fs of
        Inr fs' \<Rightarrow> Inr fs'
      | Inl FileNotFoundError \<Rightarrow>
          if parent p = p then Inl FileNotFoundError
          else (case mkdir_parents (parent p) True fs of
                  Inl e \<Rightarrow> Inl e
                | Inr fs1 \<Rightarrow> mkdir p exist_ok fs1)
      | Inl e \<Rightarrow> if \<not> exist_ok \<or> \<not> is_dir p fs then Inl e else Inr fs)"
  by pat_completeness auto
termination
proof (relation "measure (\<lambda>(p, exist_ok, fs). length p)")
  show "wf (measure (\<lambda>(p, exist_ok, fs). length p))" by simp
next
  fix p :: path and exist_ok :: bool and fs :: filesystem and e :: error
  assume "parent p \<noteq> p"
  then have "p \<noteq> []" by (auto simp: parent_def)
  then show "((parent p, True, fs), (p, exist_ok, fs)) \<in> measure (\<lambda>(p, exist_ok, fs). length p)"
    by (simp add: parent_def)
qed

declare mkdir_parents.simps [simp del]

text \<open>\<open>open(p, 'rb').read()\<close> and \<open>open(p, 'wb')\<close> followed by writes of \<open>content\<close>.\<close>

definition read_file :: "path \<Rightarrow> filesystem \<Rightarrow> error + string" where
  "read_file p fs =
     (case resolve fs p of
        Inl e \<Rightarrow> Inl e
      | Inr None \<Rightarrow> Inl FileNotFoundError
      | Inr (Some Dir) \<Rightarrow> Inl IsADirectoryError
      | Inr (Some (File content)) \<Rightarrow> Inr content)"

definition write_file :: "path \<Rightarrow> string \<Rightarrow> filesystem \<Rightarrow> error + filesystem" where
  "write_file p content fs =
     (case resolve fs p of
        Inl e \<Rightarrow> Inl e
      | Inr (Some Dir) \<Rightarrow> Inl IsADirectoryError
      | Inr other \<Rightarrow> Inr (fs(p \<mapsto> File content)))"

text \<open>
  \<open>shutil.copyfile(src, dst)\<close>: refuses to copy a file onto itself, then reads the
  source and writes the destination.
\<close>

definition copyfile :: "path \<Rightarrow> path \<Rightarrow> filesystem \<Rightarrow> error + filesystem" where
  "copyfile src dst fs =
     (if src = dst \<and> exists src fs then Inl SameFileError
      else case read_file src fs of
             Inl e \<Rightarrow> Inl e
           | Inr content \<Rightarrow> write_file dst content fs)"

text \<open>
  \<open>shutil.copy2(src, dst)\<close> and \<open>shutil.copy(src, dst)\<close>: a destination that is a
  directory stands for the entry of the source's base name in it (the base name of the
  root is empty, and the destination stays). The two differ in the metadata they copy
  besides the content (times and mode, or the mode only).
\<close>

definition copy2 :: "path \<Rightarrow> path \<Rightarrow> filesystem \<Rightarrow> error + filesystem" where
  "copy2 src dst fs =
     (let dst' = (if is_dir dst fs \<and> src \<noteq> [] then dst @ [last src] else dst)
      in copyfile src dst' fs)"

definition shutil_copy :: "path \<Rightarrow> path \<Rightarrow> filesystem \<Rightarrow> error + filesystem" where
  "shutil_copy src dst fs =
     (let dst' = (if is_dir dst fs \<and> src \<noteq> [] then dst @ [last src] else dst)
      in copyfile src dst' fs)"

text \<open>
  \<open>shutil.rmtree(p)\<close>: the path has to be a directory; it goes with everything below.
\<close>

definition rmtree :: "path \<Rightarrow> filesystem \<Rightarrow> error + filesystem" where
  "rmtree p fs =
     (case resolve fs p of
        Inl e \<Rightarrow> Inl e
      | Inr None \<Rightarrow> Inl FileNotFoundError
      | Inr (Some (File content)) \<Rightarrow> Inl NotADirectoryError
      | Inr (Some Dir) \<Rightarrow> Inr (\<lambda>q. if take (length p) q = p then None else fs q))"

section \<open>The generated \<open>CMakeLists.txt\<close>\<close>

definition nl :: string where
  "nl = [CHR 0x0A]"

text \<open>One \<open>set(FETCHCONTENT_SOURCE_DIR_...)\<close> line, as both loops of the writer format it.\<close>

definition source_dir_line :: "string \<Rightarrow> string" where
  \<open>source_dir_line dep =
     ''set(FETCHCONTENT_SOURCE_DIR_'' @ upper dep
     @ '' "${CMAKE_CURRENT_SOURCE_DIR}/'' @ dep @ ''-src" CACHE STRING "")'' @ nl\<close>

definition system_off_block :: "string \<Rightarrow> string" where
  \<open>system_off_block dep =
     ''if(NOT DEFINED DEVILUTIONX_SYSTEM_'' @ upper dep @ '')'' @ nl
     @ ''  set(DEVILUTIONX_SYSTEM_'' @ upper dep @ '' OFF CACHE BOOL "")'' @ nl
     @ ''endif()'' @ nl\<close>

text \<open>
  The bytes \<open>write_dist_cmakelists\<close> writes, in the order of its \<open>f.write\<close> calls.
\<close>

definition cmakelists_content :: "Version \<Rightarrow> bool \<Rightarrow> string" where
  \<open>cmakelists_content version fully_vendored =
     ''# Generated by tools/make_src_dist.py'' @ nl
     @ (if commit_sha version \<noteq> []
        then ''set(GIT_COMMIT_HASH "'' @ commit_sha version @ ''" PARENT_SCOPE)'' @ nl
        else [])
     @ (nl
        @ ''# Pre-generated `devilutionx.mpq` is provided so that distributions do not have to depend on smpq.'' @ nl
        @ ''set(DEVILUTIONX_MPQ "${CMAKE_CURRENT_SOURCE_DIR}/devilutionx.mpq" PARENT_SCOPE)'' @ nl
        @ nl
        @ ''# This would ensure that CMake does not attempt to connect to network.'' @ nl
        @ ''# We do not set this to allow for builds for Windows and Android, which do fetch some'' @ nl
        @ ''# dependencies even with this source distribution.'' @ nl
        @ ''# set(FETCHCONTENT_FULLY_DISCONNECTED ON PARENT_SCOPE)'' @ nl
        @ nl
        @ ''# Set the path to each dependency that must be vendored:'' @ nl)
     @ concat (map source_dir_line DEPS)
     @ (if fully_vendored
        then nl @ ''# These dependencies are not usually vendored but this distribution includes them'' @ nl
             @ ''set(FETCHCONTENT_SOURCE_DIR_DISCORDSRC "${CMAKE_CURRENT_SOURCE_DIR}/discordsrc-src" CACHE STRING "")'' @ nl
             @ concat (map (\<lambda>dep. source_dir_line dep @ system_off_block dep)
                           DEPS_NOT_VENDORED_BY_DEFAULT)
        else [])\<close>

section \<open>The pipeline\<close>

text \<open>
  What a run can change or emit: the file system, the lines the logger of the script
  writes to the diagnostic stream, and the lines printed on standard output. A log line
  is either a message or the line \<open>+ cmake ...\<close> of the \<open>cmake\<close> wrapper, kept as the
  argument list it formats.
\<close>

datatype log_line = Info string | CmakeLine "string list"

record world =
  files :: filesystem
  stderr :: "log_line list"
  stdout :: "string list"

text \<open>
  What \<open>subprocess.run\<close> gives for a command line in a working directory: the program
  is not found, or it runs to its end with a return code, its standard output and the
  file system it leaves.
\<close>

datatype process = NotFound | Completed int string filesystem

text \<open>
  The collaborators whose behaviour the script does not define are parameters: the
  programs it runs, \<open>shutil.copytree\<close> (source, destination, the \<open>ignore\<close> callback) and
  \<open>shutil.make_archive\<close> (base name, format, root directory, base directory). The
  archiver is handed the logger of the script: it gives the messages it logs there at
  level \<open>INFO\<close> or above, and then either the exception it raises or the name of the
  archive and the file system it leaves.
\<close>

record env =
  run :: "string list \<Rightarrow> path \<Rightarrow> filesystem \<Rightarrow> process"
  copytree :: "path \<Rightarrow> path \<Rightarrow> (string \<Rightarrow> string list \<Rightarrow> ignored)
               \<Rightarrow> filesystem \<Rightarrow> error + filesystem"
  shutil_make_archive :: "path \<Rightarrow> string \<Rightarrow> path \<Rightarrow> string
               \<Rightarrow> filesystem \<Rightarrow> string list \<times> (error + string \<times> filesystem)"

text \<open>
  A step of the script takes the world and gives a value or the exception it raises,
  and the world it leaves; an exception ends every enclosing step.
\<close>

type_synonym 'a step = "world \<Rightarrow> (error + 'a) \<times> world"

definition ret :: "'a \<Rightarrow> 'a step" where
  "ret x w = (Inr x, w)"

definition andthen :: "'a step \<Rightarrow> ('a \<Rightarrow> 'b step) \<Rightarrow> 'b step" where
  "andthen m f w = (case m w of (Inl e, w') \<Rightarrow> (Inl e, w') | (Inr x, w') \<Rightarrow> f x w')"

definition fs_op :: "(filesystem \<Rightarrow> error + filesystem) \<Rightarrow> unit step" where
  "fs_op f w = (case f (files w) of
                  Inl e \<Rightarrow> (Inl e, w)
                | Inr fs' \<Rightarrow> (Inr (), w\<lparr>files := fs'\<rparr>))"

definition log_info :: "string \<Rightarrow> unit step" where
  "log_info msg w = (Inr (), w\<lparr>stderr := stderr w @ [Info msg]\<rparr>)"

fun for_each :: "('a \<Rightarrow> unit step) \<Rightarrow> 'a list \<Rightarrow> unit step" where
  "for_each body [] w = (Inr (), w)"
| "for_each body (x # xs) w =
     (case body x w of (Inl e, w') \<Rightarrow> (Inl e, w') | (Inr u, w') \<Rightarrow> for_each body xs w')"

subsection \<open>The wrappers of the external programs\<close>

text \<open>
  Both wrappers call \<open>subprocess.run\<close> without \<open>check=True\<close> in \<open>_ROOT_DIR\<close>: a program
  that is not found raises \<open>FileNotFoundError\<close>, a return code is not looked at.
  \<open>cmake\<close> logs its command line first and returns nothing; \<open>git\<close> returns the captured
  standard output (its log line has level \<open>DEBUG\<close> and is not written).
\<close>

definition cmake :: "env \<Rightarrow> path \<Rightarrow> string list \<Rightarrow> unit step" where
  "cmake ev root_dir cmd_args w =
     (let w1 = w\<lparr>stderr := stderr w @ [CmakeLine cmd_args]\<rparr>
      in case run ev (''cmake'' # cmd_args) root_dir (files w1) of
           NotFound \<Rightarrow> (Inl FileNotFoundError, w1)
         | Completed returncode out fs' \<Rightarrow> (Inr (), w1\<lparr>files := fs'\<rparr>))"

definition git :: "env \<Rightarrow> path \<Rightarrow> string list \<Rightarrow> string step" where
  "git ev root_dir cmd_args w =
     (case run ev (''git'' # cmd_args) root_dir (files w) of
        NotFound \<Rightarrow> (Inl FileNotFoundError, w)
      | Completed returncode out fs' \<Rightarrow> (Inr out, w\<lparr>files := fs'\<rparr>))"

subsection \<open>The version\<close>

text \<open>
  \<open>str.rstrip()\<close> and \<open>bytes.rstrip()\<close> on ASCII text: the first also strips the four
  separator control characters. \<open>rstrip(b'\0')\<close> strips NUL bytes.
\<close>

definition rstrip_with :: "(char \<Rightarrow> bool) \<Rightarrow> string \<Rightarrow> string" where
  "rstrip_with strip s = rev (dropWhile strip (rev s))"

definition str_space :: "char \<Rightarrow> bool" where
  "str_space c = (c \<in> set [CHR 0x09, CHR 0x0A, CHR 0x0B, CHR 0x0C, CHR 0x0D,
                            CHR 0x1C, CHR 0x1D, CHR 0x1E, CHR 0x1F, CHR 0x20])"

definition bytes_space :: "char \<Rightarrow> bool" where
  "bytes_space c = (c \<in> set [CHR 0x09, CHR 0x0A, CHR 0x0B, CHR 0x0C, CHR 0x0D, CHR 0x20])"

text \<open>Reading in text mode turns \<open>\r\n\<close> and \<open>\r\<close> into \<open>\n\<close>.\<close>

fun universal_newlines :: "string \<Rightarrow> string" where
  "universal_newlines [] = []"
| "universal_newlines [c] = (if c = CHR 0x0D then [CHR 0x0A] else [c])"
| "universal_newlines (c # d # s) =
     (if c = CHR 0x0D \<and> d = CHR 0x0A then CHR 0x0A # universal_newlines s
      else if c = CHR 0x0D then CHR 0x0A # universal_newlines (d # s)
      else c # universal_newlines (d # s))"

text \<open>\<open>open('VERSION', 'r')\<close> is relative to the working directory of the run.\<close>

definition get_version :: "env \<Rightarrow> path \<Rightarrow> path \<Rightarrow> Version step" where
  "get_version ev root_dir cwd =
     andthen (\<lambda>w. case read_file (joinpath cwd ''VERSION'') (files w) of
                     Inl e \<Rightarrow> (Inl e, w)
                   | Inr content \<Rightarrow> (Inr (rstrip_with str_space (universal_newlines content)), w))
       (\<lambda>version_prefix.
     andthen (git ev root_dir [''rev-parse'', ''--short'', ''HEAD''])
       (\<lambda>out.
     ret (Version_init version_prefix (rstrip_with bytes_space out))))"

subsection \<open>The source collector\<close>

text \<open>
  The body of the loop over the tracked paths. The paths of the model are ASCII text,
  on which \<open>src_bytes.decode()\<close> is the identity; on a path that is not well-formed
  UTF-8 the script raises \<open>UnicodeDecodeError\<close> before anything else in the body.
\<close>

definition copy_repo_file :: "path \<Rightarrow> Paths \<Rightarrow> string \<Rightarrow> unit step" where
  "copy_repo_file root_dir paths src =
     (let dst_path = joinpath (archive_top_level_dir paths) src
      in andthen (fs_op (mkdir_parents (parent dst_path) True))
           (\<lambda>u. if re_search GITKEEP_RE src then ret ()
                 else fs_op (copy2 (joinpath root_dir src) dst_path)))"

definition copy_repo_files :: "env \<Rightarrow> path \<Rightarrow> Paths \<Rightarrow> unit step" where
  "copy_repo_files ev root_dir paths =
     andthen (git ev root_dir [''ls-files'', ''-z''])
       (\<lambda>out. for_each (copy_repo_file root_dir paths)
                 (split_on CHR 0x00 (rstrip_with (\<lambda>c. c = CHR 0x00) out)))"

subsection \<open>The dependency copier, the configuration writer and the archiver\<close>

definition copy_dep :: "env \<Rightarrow> path \<Rightarrow> Paths \<Rightarrow> string \<Rightarrow> unit step" where
  "copy_dep ev root_dir paths dep =
     andthen (log_info (''Copying '' @ dep @ ''...''))
       (\<lambda>u. fs_op (copytree ev
                      (joinpath (joinpath (BUILD_DIR root_dir) ''_deps'') (dep @ ''-src''))
                      (joinpath (dist_dir paths) (dep @ ''-src''))
                      ignore_dep_src))"

definition write_dist_cmakelists :: "Paths \<Rightarrow> Version \<Rightarrow> bool \<Rightarrow> unit step" where
  "write_dist_cmakelists paths version fully_vendored =
     fs_op (write_file (joinpath (dist_dir paths) ''CMakeLists.txt'')
              (cmakelists_content version fully_vendored))"

definition make_archive :: "env \<Rightarrow> path \<Rightarrow> Paths \<Rightarrow> bool \<Rightarrow> string step" where
  "make_archive ev root_dir paths fully_vendored =
     andthen (log_info (''Compressing '' @ path_str (ARCHIVE_DIR root_dir)))
       (\<lambda>u w. case shutil_make_archive ev
                      (joinpath (BUILD_DIR root_dir) (archive_top_level_dir_name paths))
                      ''xztar'' (ARCHIVE_DIR root_dir) (archive_top_level_dir_name paths)
                      (files w) of
                 (messages, result) \<Rightarrow>
                   (let w1 = w\<lparr>stderr := stderr w @ map Info messages\<rparr>
                    in case result of
                         Inl e \<Rightarrow> (Inl e, w1)
                       | Inr (name, fs') \<Rightarrow> (Inr name, w1\<lparr>files := fs'\<rparr>)))"

subsection \<open>\<open>main\<close>\<close>

text \<open>
  The mode is what the command line parser reads from \<open>--fully_vendored\<close>.
\<close>

definition main :: "env \<Rightarrow> path \<Rightarrow> path \<Rightarrow> bool \<Rightarrow> unit step" where
  "main ev root_dir cwd fully_vendored =
     andthen (cmake ev root_dir (configure_args root_dir fully_vendored)) (\<lambda>u.
     andthen (cmake ev root_dir
                [''--build'', path_str (BUILD_DIR root_dir), ''--target'', ''devilutionx_mpq''])
       (\<lambda>u.
     andthen (\<lambda>w. if exists (ARCHIVE_DIR root_dir) (files w)
                   then fs_op (rmtree (ARCHIVE_DIR root_dir)) w else ret () w) (\<lambda>u.
     andthen (get_version ev root_dir cwd) (\<lambda>version.
     let paths = Paths_init root_dir version fully_vendored in
     andthen (log_info ''Copying repo files...'') (\<lambda>u.
     andthen (copy_repo_files ev root_dir paths) (\<lambda>u.
     andthen (log_info ''Copying devilutionx.mpq...'') (\<lambda>u.
     andthen (fs_op (mkdir_parents (dist_dir paths) False)) (\<lambda>u.
     andthen (fs_op (shutil_copy (joinpath (BUILD_DIR root_dir) ''devilutionx.mpq'')
                       (dist_dir paths))) (\<lambda>u.
     andthen (for_each (copy_dep ev root_dir paths) (copy_deps fully_vendored)) (\<lambda>u.
     andthen (write_dist_cmakelists paths version fully_vendored) (\<lambda>u.
     andthen (make_archive ev root_dir paths fully_vendored) (\<lambda>name w.
     (Inr (), w\<lparr>stdout := stdout w @ [name]\<rparr>)))))))))))))"

section \<open>Describing changes of the file system\<close>

text \<open>
  Two predicates for stating what the collector does. \<open>only_new_dirs p fs fs'\<close>: going
  from \<open>fs\<close> to \<open>fs'\<close>, nothing changed except that directories were added at
  places on the way to \<open>p\<close>. \<open>nothing_below a fs\<close>: the file system records no entry
  below \<open>a\<close>.
\<close>

definition only_new_dirs :: "path \<Rightarrow> filesystem \<Rightarrow> filesystem \<Rightarrow> bool" where
  "only_new_dirs p fs fs' =
     (\<forall>q. fs' q = fs q \<or> (fs q = None \<and> fs' q = Some Dir \<and> take (length q) p = q))"

definition nothing_below :: "path \<Rightarrow> filesystem \<Rightarrow> bool" where
  "nothing_below a fs = (\<forall>q. q \<noteq> [] \<longrightarrow> fs (a @ q) = None)"

text \<open>
  Two predicates for stating what runs of the pipeline do. \<open>revision_is ev root_dir sha\<close>:
  whenever the revision lookup of \<open>ev\<close> runs to its end, what it prints is \<open>sha\<close> up
  to trailing white space. \<open>archived_config ev root_dir cwd fully_vendored w content\<close>: the
  run of \<open>main\<close> from \<open>w\<close> ends normally, and in the tree it handed to the archiver the
  generated configuration file has this content.
\<close>

definition revision_is :: "env \<Rightarrow> path \<Rightarrow> string \<Rightarrow> bool" where
  "revision_is ev root_dir sha =
     (\<forall>fs returncode out fs'.
        run ev [''git'', ''rev-parse'', ''--short'', ''HEAD''] root_dir fs
          = Completed returncode out fs'
        \<longrightarrow> rstrip_with bytes_space out = sha)"

definition archived_config :: "env \<Rightarrow> path \<Rightarrow> path \<Rightarrow> bool \<Rightarrow> world \<Rightarrow> string \<Rightarrow> bool" where
  "archived_config ev root_dir cwd fully_vendored w content =
     (\<exists>version w_cfg name w_arch.
        files w_cfg (joinpath (dist_dir (Paths_init root_dir version fully_vendored))
                       ''CMakeLists.txt'')
          = Some (File content)
        \<and> make_archive ev root_dir (Paths_init root_dir version fully_vendored)
              fully_vendored w_cfg = (Inr name, w_arch)
        \<and> main ev root_dir cwd fully_vendored w
            = (Inr (), w_arch\<lparr>stdout := stdout w_arch @ [name]\<rparr>))"

section \<open>A small checkout\<close>

text \<open>
  A checkout at \<open>/repo\<close> on which runs can be computed: the version file, a directory
  \<open>assets\<close> that holds only the marker file \<open>.gitkeep\<close>, and the build directory as an
  earlier build left it, with the data artifact and an empty source tree for each
  dependency.
\<close>

definition example_files :: filesystem where
  "example_files = map_of
     ([([''repo''], Dir),
       ([''repo'', ''VERSION''], File (''1.2.3'' @ nl)),
       ([''repo'', ''assets''], Dir),
       ([''repo'', ''assets'', ''.gitkeep''], File []),
       ([''repo'', ''build-src-dist''], Dir),
       ([''repo'', ''build-src-dist'', ''devilutionx.mpq''], File ''MPQ''),
       ([''repo'', ''build-src-dist'', ''_deps''], Dir)]
      @ map (\<lambda>dep. ([''repo'', ''build-src-dist'', ''_deps'', dep @ ''-src''], Dir))
          (DEPS @ DEPS_NOT_VENDORED_BY_DEFAULT))"

definition example_world :: world where
  "example_world = \<lparr>files = example_files, stderr = [], stdout = []\<rparr>"

text \<open>
  Collaborators for it, given what the four program runs of the script result in:
  \<open>cmake\<close> to configure, \<open>cmake --build\<close>, \<open>git rev-parse\<close> and \<open>git ls-files\<close>.
  \<open>copytree\<close> is the copy of a tree without entries: the source has to be a directory,
  the destination is made and must not exist. \<open>make_archive\<close> logs the one message of
  the tar writer, names the archive and leaves a file of that name.
\<close>

definition example_env ::
  "(filesystem \<Rightarrow> process) \<Rightarrow> (filesystem \<Rightarrow> process) \<Rightarrow> (filesystem \<Rightarrow> process)
   \<Rightarrow> (filesystem \<Rightarrow> process) \<Rightarrow> env" where
  "example_env configure build rev_parse ls_files =
     \<lparr>run = (\<lambda>argv cwd fs.
        case argv of
          [] \<Rightarrow> NotFound
        | prog # args \<Rightarrow>
            if prog = ''cmake''
            then (if take 1 args = [''--build''] then build fs else configure fs)
            else if args = [''ls-files'', ''-z''] then ls_files fs
            else rev_parse fs),
      copytree = (\<lambda>src dst ignore fs.
        if is_dir src fs then mkdir dst False fs else Inl FileNotFoundError),
      shutil_make_archive = (\<lambda>base_name format root_dir base_dir fs.
        ([''Creating tar archive''],
         Inr (path_str base_name @ ''.tar.xz'',
              fs(butlast base_name @ [last base_name @ ''.tar.xz''] \<mapsto> File ''XZ''))))\<rparr>"

text \<open>The listing of the two tracked files, as \<open>git ls-files -z\<close> prints it.\<close>

definition example_ls_files :: string where
  "example_ls_files = ''VERSION'' @ [CHR 0x00] @ ''assets/.gitkeep'' @ [CHR 0x00]"

text \<open>The paths of a default-mode run at version \<open>1.2.3\<close> in this checkout.\<close>

definition example_paths :: Paths where
  "example_paths = Paths_init [''repo''] (Version_init ''1.2.3'' ''abc1234'') False"

text \<open>
  The collaborators of a run where every program ends with return code 0 and the
  revision is \<open>abc1234\<close>.
\<close>

definition example_ok_env :: env where
  "example_ok_env = example_env (Completed 0 []) (Completed 0 [])
                      (Completed 0 (''abc1234'' @ nl)) (Completed 0 example_ls_files)"

text \<open>
  The collaborators of a run where \<open>cmake\<close> ends with return code 1 both times without
  doing anything, and \<open>git rev-parse\<close> ends with return code 128 and prints nothing.
\<close>

definition example_failing_env :: env where
  "example_failing_env = example_env (Completed 1 []) (Completed 1 [])
                           (Completed 128 []) (Completed 0 example_ls_files)"

section \<open>Properties\<close>

lemma sorted_default_deps:
  "sorted_list_of_set (set DEPS - set ALWAYS_VENDORED_DEPS)
   = [''sdl_audiolib'', ''simpleini'', ''unordered_dense'']"
  by code_simp

lemma system_off_deps_eq:
  "system_off_deps fully_vendored =
     [''sdl_audiolib'', ''simpleini'', ''unordered_dense'']
     @ (if fully_vendored then DEPS_NOT_VENDORED_BY_DEFAULT else [])"
  by (simp add: system_off_deps_def sorted_default_deps)

lemma configure_args_flags:
  "configure_args root_dir fully_vendored =
     [''-S'' @ path_str root_dir, ''-B'' @ path_str (BUILD_DIR root_dir),
      ''-DBUILD_ASSETS_MPQ=ON'']
     @ map system_off_flag (system_off_deps fully_vendored)
     @ (if fully_vendored then [''-DDISCORD_INTEGRATION=ON''] else [])"
  by (simp add: configure_args_def system_off_deps_def)

subsection \<open>C1: the copy list\<close>

text \<open>
  C1. Every always-vendored dependency is in the list of dependencies copied into the
  distribution in both modes, and every dependency that is not vendored by default is
  in that list exactly when the mode is fully vendored.
\<close>

theorem copy_list_membership:
  "(\<forall>d \<in> set ALWAYS_VENDORED_DEPS. d \<in> set (copy_deps False) \<and> d \<in> set (copy_deps True))
   \<and> (\<forall>d \<in> set DEPS_NOT_VENDORED_BY_DEFAULT. d \<in> set (copy_deps fully_vendored) \<longleftrightarrow> fully_vendored)"
  by (auto simp: copy_deps_def DEPS_def ALWAYS_VENDORED_DEPS_def DEPS_NOT_VENDORED_BY_DEFAULT_def)

theorem copy_list_membership_witness:
  "''libzt'' \<in> set ALWAYS_VENDORED_DEPS
   \<and> ''libzt'' \<in> set (copy_deps False) \<and> ''libzt'' \<in> set (copy_deps True)
   \<and> ''sdl2'' \<in> set DEPS_NOT_VENDORED_BY_DEFAULT
   \<and> ''sdl2'' \<in> set (copy_deps True) \<and> ''sdl2'' \<notin> set (copy_deps False)"
proof -
  have a: "''libzt'' \<in> set ALWAYS_VENDORED_DEPS"
    by (simp add: ALWAYS_VENDORED_DEPS_def)
  have n: "''sdl2'' \<in> set DEPS_NOT_VENDORED_BY_DEFAULT"
    by (simp add: DEPS_NOT_VENDORED_BY_DEFAULT_def)
  from a n copy_list_membership [of True] copy_list_membership [of False]
  show ?thesis by blast
qed

subsection \<open>C2: the flags that switch system copies off\<close>

text \<open>
  In fully vendored mode the flags are not in lexicographic order of the dependency
  names: \<open>googletest\<close> follows \<open>unordered_dense\<close>.
\<close>

theorem system_off_flags_unsorted_fully_vendored:
  "configure_args [''repo''] True =
     [''-S/repo'', ''-B/repo/build-src-dist'', ''-DBUILD_ASSETS_MPQ=ON'',
      ''-DDEVILUTIONX_SYSTEM_SDL_AUDIOLIB=OFF'', ''-DDEVILUTIONX_SYSTEM_SIMPLEINI=OFF'',
      ''-DDEVILUTIONX_SYSTEM_UNORDERED_DENSE=OFF'', ''-DDEVILUTIONX_SYSTEM_GOOGLETEST=OFF'',
      ''-DDEVILUTIONX_SYSTEM_BENCHMARK=OFF'', ''-DDEVILUTIONX_SYSTEM_SDL2=OFF'',
      ''-DDEVILUTIONX_SYSTEM_SDL_IMAGE=OFF'', ''-DDEVILUTIONX_SYSTEM_LIBPNG=OFF'',
      ''-DDEVILUTIONX_SYSTEM_LIBFMT=OFF'', ''-DDEVILUTIONX_SYSTEM_BZIP2=OFF'',
      ''-DDEVILUTIONX_SYSTEM_LIBSODIUM=OFF'', ''-DDISCORD_INTEGRATION=ON'']
   \<and> \<not> sorted (system_off_deps True)
   \<and> \<not> sorted (map system_off_flag (system_off_deps True))"
  by (simp add: configure_args_def sorted_default_deps system_off_deps_eq
      DEPS_NOT_VENDORED_BY_DEFAULT_def system_off_flag_def upper_def upper_char_def
      path_str_def BUILD_DIR_def joinpath_def parse_parts_def)

text \<open>
  C2 (as the code has it). The configure arguments are the three fixed arguments, then
  one flag for each dependency of \<open>system_off_deps\<close>, then (fully vendored only) the
  Discord flag. The dependencies flagged are exactly the catalog minus the
  always-vendored set, plus, when fully vendored, the dependencies not vendored by
  default; no dependency and no flag occurs twice. In default mode the flagged names
  are sorted; in fully vendored mode the list is the sorted default list followed by the
  not-vendored-by-default names in the order the catalog writes them.
\<close>

theorem system_off_flags_shape:
  "configure_args root_dir fully_vendored =
     [''-S'' @ path_str root_dir, ''-B'' @ path_str (BUILD_DIR root_dir),
      ''-DBUILD_ASSETS_MPQ=ON'']
     @ map system_off_flag (system_off_deps fully_vendored)
     @ (if fully_vendored then [''-DDISCORD_INTEGRATION=ON''] else [])
   \<and> set (system_off_deps fully_vendored) =
       (set DEPS - set ALWAYS_VENDORED_DEPS)
       \<union> (if fully_vendored then set DEPS_NOT_VENDORED_BY_DEFAULT else {})
   \<and> distinct (system_off_deps fully_vendored)
   \<and> distinct (map system_off_flag (system_off_deps fully_vendored))
   \<and> sorted (system_off_deps False)
   \<and> system_off_deps True = system_off_deps False @ DEPS_NOT_VENDORED_BY_DEFAULT"
proof -
  have s: "set (system_off_deps fully_vendored) =
       (set DEPS - set ALWAYS_VENDORED_DEPS)
       \<union> (if fully_vendored then set DEPS_NOT_VENDORED_BY_DEFAULT else {})"
    by (simp add: system_off_deps_def)
  have d: "distinct (system_off_deps fully_vendored)"
    by (simp add: system_off_deps_eq DEPS_NOT_VENDORED_BY_DEFAULT_def)
  have f: "distinct (map system_off_flag (system_off_deps fully_vendored))"
    by (cases fully_vendored)
      (simp_all add: system_off_deps_eq DEPS_NOT_VENDORED_BY_DEFAULT_def system_off_flag_def
        upper_def upper_char_def)
  have o: "sorted (system_off_deps False)"
    by (simp add: system_off_deps_eq)
  have a: "system_off_deps True = system_off_deps False @ DEPS_NOT_VENDORED_BY_DEFAULT"
    by (simp add: system_off_deps_def)
  from configure_args_flags s d f o a show ?thesis by blast
qed

subsection \<open>C3: the name of the archive's top-level directory\<close>

text \<open>
  C3. The top-level directory name is \<open>devilutionx-src\<close>, then \<open>-full\<close> exactly in fully
  vendored mode, then \<open>-\<close> and the version's display string, whatever the checkout
  location and the other fields of the version are. With display \<open>1.2.3\<close> it is
  \<open>devilutionx-src-1.2.3\<close> in default mode and \<open>devilutionx-src-full-1.2.3\<close> in fully
  vendored mode.
\<close>

theorem archive_top_level_dir_name_eq:
  "archive_top_level_dir_name (Paths_init root_dir version False)
     = ''devilutionx-src'' @ ''-'' @ str version
   \<and> archive_top_level_dir_name (Paths_init root_dir version True)
     = ''devilutionx-src'' @ ''-full'' @ ''-'' @ str version
   \<and> archive_top_level_dir_name
       (Paths_init root_dir (Version_init ''1.2.3'' ''abc1234'') False)
     = ''devilutionx-src-1.2.3''
   \<and> archive_top_level_dir_name
       (Paths_init root_dir (Version_init ''1.2.3'' ''abc1234'') True)
     = ''devilutionx-src-full-1.2.3''"
  by (simp add: Paths_init_def Version_init_def contains_char_def Let_def)

subsection \<open>C4: the display string of a version\<close>

text \<open>
  C4. With a non-empty revision identifier, the display string is the prefix when the
  prefix has no \<open>-\<close> in it, and the prefix, \<open>-\<close> and the revision identifier when it has
  one; \<open>1.2.3-beta\<close> at revision \<open>abc1234\<close> displays as \<open>1.2.3-beta-abc1234\<close>.
\<close>

theorem version_display:
  "sha \<noteq> [] \<Longrightarrow>
     (\<not> contains_char CHR ''-'' p \<longrightarrow> str (Version_init p sha) = p)
     \<and> (contains_char CHR ''-'' p \<longrightarrow> str (Version_init p sha) = p @ ''-'' @ sha)
     \<and> str (Version_init ''1.2.3-beta'' ''abc1234'') = ''1.2.3-beta-abc1234''"
  by (simp add: Version_init_def contains_char_def)

theorem version_display_witness:
  "''abc1234'' \<noteq> []
   \<and> \<not> contains_char CHR ''-'' ''1.2.3''
   \<and> str (Version_init ''1.2.3'' ''abc1234'') = ''1.2.3''
   \<and> contains_char CHR ''-'' ''1.2.3-beta''
   \<and> str (Version_init ''1.2.3-beta'' ''abc1234'') = ''1.2.3-beta'' @ ''-'' @ ''abc1234''"
proof -
  have h: "''abc1234'' \<noteq> []" by simp
  have a: "\<not> contains_char CHR ''-'' ''1.2.3''" by (simp add: contains_char_def)
  have b: "contains_char CHR ''-'' ''1.2.3-beta''" by (simp add: contains_char_def)
  from a b version_display [OF h, of "''1.2.3''"] version_display [OF h, of "''1.2.3-beta''"]
  show ?thesis by simp
qed

subsection \<open>C5: a version without revision identifier\<close>

text \<open>
  The constructor only assigns three attributes; it has no failing path, and the model
  is a total function. With the empty revision identifier and a prefix that contains
  \<open>-\<close>, the display string is not the prefix: it keeps the separator the constructor
  inserts.
\<close>

theorem version_display_empty_sha_separator:
  "str (Version_init ''1.2.3-beta'' '''') = ''1.2.3-beta-''
   \<and> str (Version_init ''1.2.3-beta'' '''') \<noteq> prefix (Version_init ''1.2.3-beta'' '''')"
  by (simp add: Version_init_def contains_char_def)

text \<open>
  C5 (as the code has it). With the empty revision identifier the display string is the
  prefix when the prefix has no \<open>-\<close> in it, and the prefix followed by \<open>-\<close> when it has
  one; so it equals the prefix exactly for the prefixes without separator.
\<close>

theorem version_display_empty_sha:
  "str (Version_init p '''') = (if contains_char CHR ''-'' p then p @ ''-'' else p)
   \<and> (str (Version_init p '''') = p \<longleftrightarrow> \<not> contains_char CHR ''-'' p)
   \<and> prefix (Version_init p '''') = p \<and> commit_sha (Version_init p '''') = ''''"
  by (simp add: Version_init_def)

subsection \<open>Searching\<close>

lemma search_from_append:
  "(\<And>b. matches r (b, s) \<noteq> []) \<Longrightarrow> search_from r at_start (a @ s)"
proof (induction a arbitrary: at_start)
  case Nil
  then show ?case by (cases s) simp_all
next
  case (Cons c a)
  then show ?case by simp
qed

lemma dir_re_tests: "matches IGNORE_DEP_DIR_RE (b, ''/tests/'' @ rest) \<noteq> []"
  by (simp add: IGNORE_DEP_DIR_RE_def opt_def)

lemma dir_re_doc: "matches IGNORE_DEP_DIR_RE (b, ''/doc/'' @ rest) \<noteq> []"
  by (simp add: IGNORE_DEP_DIR_RE_def opt_def)

lemma dir_re_slash_dot: "matches IGNORE_DEP_DIR_RE (b, ''/.'' @ rest) \<noteq> []"
  by (simp add: IGNORE_DEP_DIR_RE_def opt_def)

lemma dir_re_dot_start: "matches IGNORE_DEP_DIR_RE (True, ''.'' @ rest) \<noteq> []"
  by (simp add: IGNORE_DEP_DIR_RE_def opt_def)

subsection \<open>C8: the directory pattern\<close>

text \<open>
  C8. The directory pattern is found in every path that contains \<open>/tests/\<close>, in every
  path that contains \<open>/doc/\<close>, and in every path that has \<open>.git/\<close> at the start of a
  component (at the start of the path or after a \<open>/\<close>); it is not found in
  \<open>src/foo.c\<close>.
\<close>

theorem ignore_dep_dir_re_examples:
  "re_search IGNORE_DEP_DIR_RE (a @ ''/tests/'' @ b)
   \<and> re_search IGNORE_DEP_DIR_RE (a @ ''/doc/'' @ b)
   \<and> re_search IGNORE_DEP_DIR_RE (''.git/'' @ b)
   \<and> re_search IGNORE_DEP_DIR_RE (a @ ''/.git/'' @ b)
   \<and> \<not> re_search IGNORE_DEP_DIR_RE ''src/foo.c''"
proof -
  have t: "re_search IGNORE_DEP_DIR_RE (a @ ''/tests/'' @ b)"
    unfolding re_search_def by (rule search_from_append) (rule dir_re_tests)
  have d: "re_search IGNORE_DEP_DIR_RE (a @ ''/doc/'' @ b)"
    unfolding re_search_def by (rule search_from_append) (rule dir_re_doc)
  have g0: "re_search IGNORE_DEP_DIR_RE (''.git/'' @ b)"
    using dir_re_dot_start [of "''git/'' @ b"] by (simp add: re_search_def)
  have g1: "re_search IGNORE_DEP_DIR_RE (a @ ''/.git/'' @ b)"
    unfolding re_search_def
    using search_from_append [of IGNORE_DEP_DIR_RE "''/.git/'' @ b" True a]
      dir_re_slash_dot [of _ "''git/'' @ b"] by simp
  have n: "\<not> re_search IGNORE_DEP_DIR_RE ''src/foo.c''"
    by (simp add: re_search_def IGNORE_DEP_DIR_RE_def opt_def)
  from t d g0 g1 n show ?thesis by blast
qed

subsection \<open>C7: the filter on the tree of sdl_audiolib\<close>

lemma copytree_skips_Listed:
  "copytree_skips (Listed l) es = filter (\<lambda>e. e \<in> set l) es"
  by (induction es) simp_all

lemma copytree_skips_all: "copytree_skips (Listed names) names = names"
  by (simp add: copytree_skips_Listed)

lemma copytree_skips_none: "copytree_skips (Listed []) names = []"
  by (simp add: copytree_skips_Listed)

text \<open>
  In the directory \<open>3rdparty/fmt\<close> of sdl_audiolib the callback returns the list of all
  names, and \<open>copytree\<close> passes over every entry: none is copied. In the top directory
  of sdl_audiolib it returns the empty list, and no entry is passed over, although the
  directory pattern is found in \<open>.git\<close>, \<open>doc\<close> and \<open>tests\<close> and the file pattern in
  \<open>Makefile\<close> and \<open>logo.png\<close>. For its directory \<open>doc\<close>, in whose path the directory
  pattern is found, it returns the empty list as well.
\<close>

theorem ignore_dep_src_sdl_audiolib_examples:
  "ignore_dep_src ''/repo/build-src-dist/_deps/sdl_audiolib-src/3rdparty/fmt''
       [''CMakeLists.txt'', ''include'', ''src'']
     = Listed [''CMakeLists.txt'', ''include'', ''src'']
   \<and> copytree_skips
       (ignore_dep_src ''/repo/build-src-dist/_deps/sdl_audiolib-src/3rdparty/fmt''
          [''CMakeLists.txt'', ''include'', ''src''])
       [''CMakeLists.txt'', ''include'', ''src'']
     = [''CMakeLists.txt'', ''include'', ''src'']
   \<and> ignore_dep_src ''/repo/build-src-dist/_deps/sdl_audiolib-src''
       [''.git'', ''doc'', ''tests'', ''Makefile'', ''logo.png'', ''src'']
     = Listed []
   \<and> copytree_skips
       (ignore_dep_src ''/repo/build-src-dist/_deps/sdl_audiolib-src''
          [''.git'', ''doc'', ''tests'', ''Makefile'', ''logo.png'', ''src''])
       [''.git'', ''doc'', ''tests'', ''Makefile'', ''logo.png'', ''src'']
     = []
   \<and> re_search IGNORE_DEP_DIR_RE ''.git''
   \<and> re_search IGNORE_DEP_DIR_RE ''doc''
   \<and> re_search IGNORE_DEP_DIR_RE ''tests''
   \<and> re_search IGNORE_DEP_FILE_RE ''Makefile''
   \<and> re_search IGNORE_DEP_FILE_RE ''logo.png''
   \<and> re_search IGNORE_DEP_DIR_RE ''/repo/build-src-dist/_deps/sdl_audiolib-src/doc''
   \<and> ignore_dep_src ''/repo/build-src-dist/_deps/sdl_audiolib-src/doc'' [''index.html'']
     = Listed []"
  by (simp add: ignore_dep_src_def endswith_def re_search_def
      IGNORE_DEP_DIR_RE_def IGNORE_DEP_FILE_RE_def opt_def)

text \<open>
  C7 (as the code has it). For a directory whose path contains \<open>sdl_audiolib\<close> the
  general rules are not applied. The callback returns a list: the empty list, so that
  \<open>copytree\<close> passes over no entry of the directory, except for a directory whose path
  ends with \<open>/sdl_audiolib-src/3rdparty/fmt\<close>, where it returns all the names, so that
  \<open>copytree\<close> passes over every entry.
\<close>

theorem ignore_dep_src_sdl_audiolib:
  "contains_str ''sdl_audiolib'' src \<Longrightarrow>
     ignore_dep_src src names
       = Listed (if endswith src ''/sdl_audiolib-src/3rdparty/fmt'' then names else [])
     \<and> copytree_skips (ignore_dep_src src names) names
       = (if endswith src ''/sdl_audiolib-src/3rdparty/fmt'' then names else [])"
  by (simp add: ignore_dep_src_def copytree_skips_all copytree_skips_none)

theorem ignore_dep_src_sdl_audiolib_witness:
  "contains_str ''sdl_audiolib'' ''/r/_deps/sdl_audiolib-src/3rdparty/fmt''
   \<and> endswith ''/r/_deps/sdl_audiolib-src/3rdparty/fmt'' ''/sdl_audiolib-src/3rdparty/fmt''
   \<and> ignore_dep_src ''/r/_deps/sdl_audiolib-src/3rdparty/fmt'' [''format.h'', ''core.h'']
     = Listed [''format.h'', ''core.h'']
   \<and> copytree_skips
       (ignore_dep_src ''/r/_deps/sdl_audiolib-src/3rdparty/fmt'' [''format.h'', ''core.h''])
       [''format.h'', ''core.h'']
     = [''format.h'', ''core.h'']
   \<and> contains_str ''sdl_audiolib'' ''/r/_deps/sdl_audiolib-src/doc''
   \<and> \<not> endswith ''/r/_deps/sdl_audiolib-src/doc'' ''/sdl_audiolib-src/3rdparty/fmt''
   \<and> ignore_dep_src ''/r/_deps/sdl_audiolib-src/doc'' [''index.html'', ''logo.png'']
     = Listed []
   \<and> copytree_skips
       (ignore_dep_src ''/r/_deps/sdl_audiolib-src/doc'' [''index.html'', ''logo.png''])
       [''index.html'', ''logo.png'']
     = []"
proof -
  have a: "contains_str ''sdl_audiolib'' ''/r/_deps/sdl_audiolib-src/3rdparty/fmt''"
    by simp
  have b: "endswith ''/r/_deps/sdl_audiolib-src/3rdparty/fmt'' ''/sdl_audiolib-src/3rdparty/fmt''"
    by (simp add: endswith_def)
  have c: "contains_str ''sdl_audiolib'' ''/r/_deps/sdl_audiolib-src/doc''"
    by simp
  have d: "\<not> endswith ''/r/_deps/sdl_audiolib-src/doc'' ''/sdl_audiolib-src/3rdparty/fmt''"
    by (simp add: endswith_def)
  from b ignore_dep_src_sdl_audiolib [OF a, of "[''format.h'', ''core.h'']"]
  have e: "ignore_dep_src ''/r/_deps/sdl_audiolib-src/3rdparty/fmt'' [''format.h'', ''core.h'']
           = Listed [''format.h'', ''core.h'']
         \<and> copytree_skips
             (ignore_dep_src ''/r/_deps/sdl_audiolib-src/3rdparty/fmt'' [''format.h'', ''core.h''])
             [''format.h'', ''core.h'']
           = [''format.h'', ''core.h'']"
    by simp
  from d ignore_dep_src_sdl_audiolib [OF c, of "[''index.html'', ''logo.png'']"]
  have f: "ignore_dep_src ''/r/_deps/sdl_audiolib-src/doc'' [''index.html'', ''logo.png'']
           = Listed []
         \<and> copytree_skips
             (ignore_dep_src ''/r/_deps/sdl_audiolib-src/doc'' [''index.html'', ''logo.png''])
             [''index.html'', ''logo.png'']
           = []"
    by simp
  from a b c d e f show ?thesis by blast
qed

subsection \<open>The file system operations\<close>

lemma check_dirs_mono:
  "(\<And>q. fs q = Some Dir \<Longrightarrow> fs' q = Some Dir) \<Longrightarrow>
   check_dirs fs pre cs = None \<Longrightarrow> check_dirs fs' pre cs = None"
proof (induction cs arbitrary: pre)
  case Nil
  then show ?case by simp
next
  case (Cons c cs)
  from Cons.prems(2) have d: "fs (pre @ [c]) = Some Dir"
    by (auto split: option.splits node.splits)
  with Cons.prems(2) have r: "check_dirs fs (pre @ [c]) cs = None" by simp
  from d Cons.prems(1) have "fs' (pre @ [c]) = Some Dir" by blast
  with Cons.IH [OF Cons.prems(1) r] show ?case by simp
qed

lemma is_dir_mono:
  assumes "\<And>q. fs q = Some Dir \<Longrightarrow> fs' q = Some Dir" and "is_dir p fs"
  shows "is_dir p fs'"
proof (cases "p = []")
  case True
  then show ?thesis by (simp add: is_dir_def resolve_def)
next
  case False
  with assms(2) have c: "check_dirs fs [] (butlast p) = None" and d: "fs p = Some Dir"
    by (auto simp: is_dir_def resolve_def split: option.splits)
  from check_dirs_mono [OF assms(1) c] assms(1) [OF d] False
  show ?thesis by (simp add: is_dir_def resolve_def)
qed

lemma os_mkdir_Inr:
  "os_mkdir p fs = Inr fs' \<Longrightarrow>
     fs' = fs(p \<mapsto> Dir) \<and> fs p = None \<and> p \<noteq> [] \<and> check_dirs fs [] (butlast p) = None"
  by (auto simp: os_mkdir_def resolve_def split: sum.splits option.splits if_splits)

lemma os_mkdir_is_dir:
  assumes "os_mkdir p fs = Inr fs'"
  shows "is_dir p fs'"
proof -
  from os_mkdir_Inr [OF assms]
  have e: "fs' = fs(p \<mapsto> Dir)" and n: "fs p = None" and p: "p \<noteq> []"
    and c: "check_dirs fs [] (butlast p) = None" by auto
  have mono: "\<And>q. fs q = Some Dir \<Longrightarrow> fs' q = Some Dir" using e n by auto
  have "check_dirs fs' [] (butlast p) = None"
    by (rule check_dirs_mono [of fs fs', OF mono c])
  with e p show ?thesis
    by (simp add: is_dir_def resolve_def)
qed

lemma mkdir_is_dir:
  "mkdir p exist_ok fs = Inr fs' \<Longrightarrow> is_dir p fs'"
  by (auto simp: mkdir_def os_mkdir_is_dir split: sum.splits error.splits if_splits)

lemma mkdir_parents_is_dir:
  "mkdir_parents p exist_ok fs = Inr fs' \<Longrightarrow> is_dir p fs'"
  by (subst (asm) mkdir_parents.simps)
     (auto simp: os_mkdir_is_dir mkdir_is_dir split: sum.splits error.splits if_splits)

lemma only_new_dirs_refl: "only_new_dirs p fs fs"
  by (simp add: only_new_dirs_def)

lemma os_mkdir_frame: "os_mkdir p fs = Inr fs' \<Longrightarrow> only_new_dirs p fs fs'"
  by (auto simp: only_new_dirs_def dest!: os_mkdir_Inr split: if_splits)

lemma mkdir_frame: "mkdir p exist_ok fs = Inr fs' \<Longrightarrow> only_new_dirs p fs fs'"
  by (auto simp: mkdir_def os_mkdir_frame only_new_dirs_refl
      split: sum.splits error.splits if_splits)

lemma take_butlast_prefix:
  assumes t: "take (length q) (butlast p) = q"
  shows "take (length q) p = q"
proof (cases p rule: rev_cases)
  case Nil
  with t show ?thesis by simp
next
  case (snoc xs x)
  with t have "take (length q) xs = q" by simp
  from arg_cong [OF this, of length] have "length q \<le> length xs"
    by simp
  with snoc t show ?thesis by simp
qed

lemma mkdir_parents_frame:
  "mkdir_parents p exist_ok fs = Inr fs' \<Longrightarrow> only_new_dirs p fs fs'"
proof (induction p exist_ok fs arbitrary: fs' rule: mkdir_parents.induct)
  case (1 p exist_ok fs)
  show ?case
  proof (cases "os_mkdir p fs")
    case (Inr fs1)
    with "1.prems" have "fs' = fs1" by (subst (asm) mkdir_parents.simps) simp
    with Inr show ?thesis by (simp add: os_mkdir_frame)
  next
    case (Inl e)
    show ?thesis
    proof (cases "e = FileNotFoundError")
      case True
      with Inl "1.prems" have pp: "parent p \<noteq> p"
        by (subst (asm) mkdir_parents.simps) (auto split: if_splits)
      with Inl True "1.prems" obtain fs1 where
        a: "mkdir_parents (parent p) True fs = Inr fs1" and b: "mkdir p exist_ok fs1 = Inr fs'"
        by (subst (asm) mkdir_parents.simps) (auto split: if_splits sum.splits)
      from "1.IH" [OF Inl True pp a] have f1: "only_new_dirs (parent p) fs fs1" .
      from mkdir_frame [OF b] have f2: "only_new_dirs p fs1 fs'" .
      show ?thesis
        unfolding only_new_dirs_def
      proof
        fix q
        from f1 have "fs1 q = fs q \<or> (fs q = None \<and> fs1 q = Some Dir \<and> take (length q) (parent p) = q)"
          by (simp add: only_new_dirs_def)
        moreover from f2 have "fs' q = fs1 q \<or> (fs1 q = None \<and> fs' q = Some Dir \<and> take (length q) p = q)"
          by (simp add: only_new_dirs_def)
        ultimately show "fs' q = fs q \<or> (fs q = None \<and> fs' q = Some Dir \<and> take (length q) p = q)"
          by (auto simp: parent_def dest: take_butlast_prefix)
      qed
    next
      case False
      with Inl "1.prems" have "fs' = fs"
        by (subst (asm) mkdir_parents.simps) (auto split: if_splits error.splits)
      then show ?thesis by (simp add: only_new_dirs_refl)
    qed
  qed
qed

lemma only_new_dirs_keeps_dirs:
  "only_new_dirs p fs fs' \<Longrightarrow> fs q = Some Dir \<Longrightarrow> fs' q = Some Dir"
  unfolding only_new_dirs_def by (metis option.distinct(1))

lemma write_file_Inr:
  "write_file t content fs = Inr fs' \<Longrightarrow> fs' = fs(t \<mapsto> File content) \<and> fs t \<noteq> Some Dir"
  by (auto simp: write_file_def resolve_def split: sum.splits option.splits node.splits if_splits)

lemma copy2_Inr:
  assumes "copy2 src dst fs = Inr fs'"
  shows "\<exists>t content. fs' = fs(t \<mapsto> File content) \<and> fs t \<noteq> Some Dir
           \<and> (t = dst \<or> t = dst @ [last src])"
proof -
  from assms obtain t content where w: "write_file t content fs = Inr fs'"
    and t: "t = dst \<or> t = dst @ [last src]"
    by (auto simp: copy2_def copyfile_def Let_def split: if_splits sum.splits)
  from write_file_Inr [OF w] t show ?thesis by blast
qed

lemma copy2_keeps_dirs:
  "copy2 src dst fs = Inr fs' \<Longrightarrow> fs q = Some Dir \<Longrightarrow> fs' q = Some Dir"
  by (auto dest!: copy2_Inr)

text \<open>What a step of the collector that returns has done.\<close>

lemma copy_repo_file_Inr:
  assumes "fst (copy_repo_file root_dir paths src w) = Inr ()"
  shows "\<exists>fs1. mkdir_parents (parent (joinpath (archive_top_level_dir paths) src)) True (files w)
                 = Inr fs1
           \<and> (if re_search GITKEEP_RE src
               then files (snd (copy_repo_file root_dir paths src w)) = fs1
               else copy2 (joinpath root_dir src) (joinpath (archive_top_level_dir paths) src) fs1
                    = Inr (files (snd (copy_repo_file root_dir paths src w))))"
  using assms
  by (auto simp: copy_repo_file_def andthen_def fs_op_def ret_def Let_def
      split: sum.splits prod.splits if_splits)

lemma copy_repo_file_parent_dir:
  assumes "fst (copy_repo_file root_dir paths src w) = Inr ()"
  shows "is_dir (parent (joinpath (archive_top_level_dir paths) src))
           (files (snd (copy_repo_file root_dir paths src w)))"
proof -
  from copy_repo_file_Inr [OF assms] obtain fs1 where
    m: "mkdir_parents (parent (joinpath (archive_top_level_dir paths) src)) True (files w) = Inr fs1"
    and c: "if re_search GITKEEP_RE src
            then files (snd (copy_repo_file root_dir paths src w)) = fs1
            else copy2 (joinpath root_dir src) (joinpath (archive_top_level_dir paths) src) fs1
                 = Inr (files (snd (copy_repo_file root_dir paths src w)))"
    by blast
  from mkdir_parents_is_dir [OF m]
  have d: "is_dir (parent (joinpath (archive_top_level_dir paths) src)) fs1" .
  show ?thesis
  proof (cases "re_search GITKEEP_RE src")
    case True
    with c d show ?thesis by simp
  next
    case False
    with c have "copy2 (joinpath root_dir src) (joinpath (archive_top_level_dir paths) src) fs1
                 = Inr (files (snd (copy_repo_file root_dir paths src w)))" by simp
    from is_dir_mono [OF copy2_keeps_dirs [OF this] d] show ?thesis .
  qed
qed

lemma copy_repo_file_keeps_dirs:
  assumes "fst (copy_repo_file root_dir paths src w) = Inr ()"
    and "is_dir q (files w)"
  shows "is_dir q (files (snd (copy_repo_file root_dir paths src w)))"
proof -
  from copy_repo_file_Inr [OF assms(1)] obtain fs1 where
    m: "mkdir_parents (parent (joinpath (archive_top_level_dir paths) src)) True (files w) = Inr fs1"
    and c: "if re_search GITKEEP_RE src
            then files (snd (copy_repo_file root_dir paths src w)) = fs1
            else copy2 (joinpath root_dir src) (joinpath (archive_top_level_dir paths) src) fs1
                 = Inr (files (snd (copy_repo_file root_dir paths src w)))"
    by blast
  from is_dir_mono [OF only_new_dirs_keeps_dirs [OF mkdir_parents_frame [OF m]] assms(2)]
  have d: "is_dir q fs1" .
  show ?thesis
  proof (cases "re_search GITKEEP_RE src")
    case True
    with c d show ?thesis by simp
  next
    case False
    with c have "copy2 (joinpath root_dir src) (joinpath (archive_top_level_dir paths) src) fs1
                 = Inr (files (snd (copy_repo_file root_dir paths src w)))" by simp
    from is_dir_mono [OF copy2_keeps_dirs [OF this] d] show ?thesis .
  qed
qed

lemma for_each_Cons_Inr:
  assumes "fst (for_each body (x # xs) w) = Inr ()"
  shows "fst (body x w) = Inr ()
         \<and> for_each body (x # xs) w = for_each body xs (snd (body x w))"
  using assms by (auto split: prod.splits sum.splits)

lemma for_each_keeps_dirs:
  "fst (for_each (copy_repo_file root_dir paths) listing w) = Inr () \<Longrightarrow>
   is_dir q (files w) \<Longrightarrow>
   is_dir q (files (snd (for_each (copy_repo_file root_dir paths) listing w)))"
proof (induction listing arbitrary: w)
  case Nil
  then show ?case by simp
next
  case (Cons s listing)
  from for_each_Cons_Inr [OF Cons.prems(1)]
  have a: "fst (copy_repo_file root_dir paths s w) = Inr ()"
    and b: "for_each (copy_repo_file root_dir paths) (s # listing) w
            = for_each (copy_repo_file root_dir paths) listing
                (snd (copy_repo_file root_dir paths s w))" by auto
  from Cons.prems(1) b
  have c: "fst (for_each (copy_repo_file root_dir paths) listing
                 (snd (copy_repo_file root_dir paths s w))) = Inr ()" by simp
  from Cons.IH [OF c copy_repo_file_keeps_dirs [OF a Cons.prems(2)]] b
  show ?case by simp
qed

lemma for_each_parent_dirs:
  "fst (for_each (copy_repo_file root_dir paths) listing w) = Inr () \<Longrightarrow>
   src \<in> set listing \<Longrightarrow>
   is_dir (parent (joinpath (archive_top_level_dir paths) src))
     (files (snd (for_each (copy_repo_file root_dir paths) listing w)))"
proof (induction listing arbitrary: w)
  case Nil
  then show ?case by simp
next
  case (Cons s listing)
  from for_each_Cons_Inr [OF Cons.prems(1)]
  have a: "fst (copy_repo_file root_dir paths s w) = Inr ()"
    and b: "for_each (copy_repo_file root_dir paths) (s # listing) w
            = for_each (copy_repo_file root_dir paths) listing
                (snd (copy_repo_file root_dir paths s w))" by auto
  from Cons.prems(1) b
  have c: "fst (for_each (copy_repo_file root_dir paths) listing
                 (snd (copy_repo_file root_dir paths s w))) = Inr ()" by simp
  show ?case
  proof (cases "src = s")
    case True
    from for_each_keeps_dirs [OF c copy_repo_file_parent_dir [OF a]] b True
    show ?thesis by simp
  next
    case False
    with Cons.prems(2) have "src \<in> set listing" by simp
    from Cons.IH [OF c this] b show ?thesis by simp
  qed
qed

lemma new_dirs_nothing_below:
  assumes f: "only_new_dirs p fs fs'" and n: "nothing_below a fs"
    and c: "take (length a) p = a \<Longrightarrow> p = a"
  shows "nothing_below a fs'"
  unfolding nothing_below_def
proof (intro allI impI)
  fix q :: path
  assume q: "q \<noteq> []"
  from f have "\<forall>r. fs' r = fs r \<or> (fs r = None \<and> fs' r = Some Dir \<and> take (length r) p = r)"
    by (simp add: only_new_dirs_def)
  then have "fs' (a @ q) = fs (a @ q)
      \<or> (fs (a @ q) = None \<and> fs' (a @ q) = Some Dir \<and> take (length (a @ q)) p = a @ q)"
    by (rule spec)
  then show "fs' (a @ q) = None"
  proof
    assume "fs' (a @ q) = fs (a @ q)"
    with n q show ?thesis by (simp add: nothing_below_def)
  next
    assume "fs (a @ q) = None \<and> fs' (a @ q) = Some Dir \<and> take (length (a @ q)) p = a @ q"
    then have t: "take (length (a @ q)) p = a @ q" by simp
    from arg_cong [OF t, of "take (length a)"] have "take (length a) p = a"
      by (simp add: min_def)
    from c [OF this] t have "take (length (a @ q)) a = a @ q" by simp
    from arg_cong [OF this, of length] q show ?thesis by simp
  qed
qed

lemma write_nothing_below:
  assumes e: "fs' = fs(t \<mapsto> File content)" and t: "t = dst \<or> t = dst @ [l]"
    and n: "nothing_below a fs" and c: "take (length a) dst \<noteq> a"
  shows "nothing_below a fs'"
  unfolding nothing_below_def
proof (intro allI impI)
  fix q :: path
  assume q: "q \<noteq> []"
  have "t \<noteq> a @ q"
  proof
    assume eq: "t = a @ q"
    from t show False
    proof
      assume "t = dst"
      with eq c show False by simp
    next
      assume "t = dst @ [l]"
      with eq have "dst @ [l] = a @ butlast q @ [last q]" using q by simp
      then have "dst = a @ butlast q" by (metis append_assoc butlast_snoc)
      with c show False by simp
    qed
  qed
  with e n q show "fs' (a @ q) = None" by (simp add: nothing_below_def)
qed

lemma copy_repo_file_nothing_below:
  assumes ok: "fst (copy_repo_file root_dir paths src w) = Inr ()"
    and n: "nothing_below a (files w)"
    and c: "take (length a) (joinpath (archive_top_level_dir paths) src) = a \<Longrightarrow>
            re_search GITKEEP_RE src \<and> parent (joinpath (archive_top_level_dir paths) src) = a"
  shows "nothing_below a (files (snd (copy_repo_file root_dir paths src w)))"
proof -
  let ?dst = "joinpath (archive_top_level_dir paths) src"
  from copy_repo_file_Inr [OF ok] obtain fs1 where
    m: "mkdir_parents (parent ?dst) True (files w) = Inr fs1"
    and r: "if re_search GITKEEP_RE src
            then files (snd (copy_repo_file root_dir paths src w)) = fs1
            else copy2 (joinpath root_dir src) ?dst fs1
                 = Inr (files (snd (copy_repo_file root_dir paths src w)))"
    by blast
  have p: "take (length a) (parent ?dst) = a \<Longrightarrow> parent ?dst = a"
  proof -
    assume "take (length a) (parent ?dst) = a"
    then have "take (length a) ?dst = a"
      unfolding parent_def by (rule take_butlast_prefix)
    from c [OF this] show "parent ?dst = a" by simp
  qed
  from new_dirs_nothing_below [OF mkdir_parents_frame [OF m] n p]
  have n1: "nothing_below a fs1" .
  show ?thesis
  proof (cases "re_search GITKEEP_RE src")
    case True
    with r n1 show ?thesis by simp
  next
    case False
    with c have nc: "take (length a) ?dst \<noteq> a" by blast
    from False r have "copy2 (joinpath root_dir src) ?dst fs1
                 = Inr (files (snd (copy_repo_file root_dir paths src w)))" by simp
    from copy2_Inr [OF this] obtain t content where
      e: "files (snd (copy_repo_file root_dir paths src w)) = fs1(t \<mapsto> File content)"
      and t: "t = ?dst \<or> t = ?dst @ [last (joinpath root_dir src)]" by blast
    from write_nothing_below [OF e t n1 nc] show ?thesis .
  qed
qed

lemma for_each_nothing_below:
  "fst (for_each (copy_repo_file root_dir paths) listing w) = Inr () \<Longrightarrow>
   nothing_below a (files w) \<Longrightarrow>
   (\<And>s. s \<in> set listing \<Longrightarrow> take (length a) (joinpath (archive_top_level_dir paths) s) = a \<Longrightarrow>
      re_search GITKEEP_RE s \<and> parent (joinpath (archive_top_level_dir paths) s) = a) \<Longrightarrow>
   nothing_below a (files (snd (for_each (copy_repo_file root_dir paths) listing w)))"
proof (induction listing arbitrary: w)
  case Nil
  then show ?case by simp
next
  case (Cons s listing)
  from for_each_Cons_Inr [OF Cons.prems(1)]
  have a: "fst (copy_repo_file root_dir paths s w) = Inr ()"
    and b: "for_each (copy_repo_file root_dir paths) (s # listing) w
            = for_each (copy_repo_file root_dir paths) listing
                (snd (copy_repo_file root_dir paths s w))" by auto
  from Cons.prems(1) b
  have c: "fst (for_each (copy_repo_file root_dir paths) listing
                 (snd (copy_repo_file root_dir paths s w))) = Inr ()" by simp
  have n1: "nothing_below a (files (snd (copy_repo_file root_dir paths s w)))"
    by (rule copy_repo_file_nothing_below [OF a Cons.prems(2)]) (rule Cons.prems(3), simp_all)
  have "nothing_below a (files (snd (for_each (copy_repo_file root_dir paths) listing
          (snd (copy_repo_file root_dir paths s w)))))"
    by (rule Cons.IH [OF c n1]) (rule Cons.prems(3), simp_all)
  with b show ?case by simp
qed

subsection \<open>C10: directories kept by a marker file\<close>

text \<open>
  C10. The source collector runs its loop on the paths that \<open>git ls-files -z\<close> prints,
  each ended by a NUL byte. Take any list of tracked paths on which the loop runs to
  its end. Then the parent directory of the destination of every listed path is a
  directory of the resulting file system, whether the path is a marker file or not: for
  a path that the marker pattern matches, the whole step is the creation of that parent
  directory, and nothing is copied. Consequently, when \<open>m\<close> is a listed marker file
  whose destination is \<open>x\<close> in the directory \<open>d\<close> of the staging tree, every listed path
  with a destination at or below \<open>d\<close> is a marker file directly in \<open>d\<close>, and
  nothing was below \<open>d\<close> before, then \<open>d\<close> is a directory afterwards and still nothing
  is below it: the directory is there, empty, and the marker file is not.
\<close>

theorem source_collector_marker_directories:
  assumes ok: "fst (for_each (copy_repo_file root_dir paths) listing w) = Inr ()"
  shows "(run ev [''git'', ''ls-files'', ''-z''] root_dir (files w0) = Completed returncode out fs1
          \<longrightarrow> copy_repo_files ev root_dir paths w0
              = for_each (copy_repo_file root_dir paths)
                  (split_on CHR 0x00 (rstrip_with (\<lambda>c. c = CHR 0x00) out))
                  (w0\<lparr>files := fs1\<rparr>))
       \<and> (\<forall>src \<in> set listing.
            is_dir (parent (joinpath (archive_top_level_dir paths) src))
              (files (snd (for_each (copy_repo_file root_dir paths) listing w))))
       \<and> (re_search GITKEEP_RE src \<longrightarrow>
            copy_repo_file root_dir paths src
              = fs_op (mkdir_parents (parent (joinpath (archive_top_level_dir paths) src)) True))
       \<and> (m \<in> set listing \<and> re_search GITKEEP_RE m
            \<and> joinpath (archive_top_level_dir paths) m = archive_top_level_dir paths @ d @ [x]
            \<and> nothing_below (archive_top_level_dir paths @ d) (files w)
            \<and> (\<forall>s \<in> set listing.
                  take (length (archive_top_level_dir paths @ d))
                       (joinpath (archive_top_level_dir paths) s)
                    = archive_top_level_dir paths @ d
                  \<longrightarrow> re_search GITKEEP_RE s
                      \<and> parent (joinpath (archive_top_level_dir paths) s)
                          = archive_top_level_dir paths @ d)
          \<longrightarrow> is_dir (archive_top_level_dir paths @ d)
                 (files (snd (for_each (copy_repo_file root_dir paths) listing w)))
              \<and> nothing_below (archive_top_level_dir paths @ d)
                 (files (snd (for_each (copy_repo_file root_dir paths) listing w))))"
proof (intro conjI impI)
  assume "run ev [''git'', ''ls-files'', ''-z''] root_dir (files w0) = Completed returncode out fs1"
  then show "copy_repo_files ev root_dir paths w0
              = for_each (copy_repo_file root_dir paths)
                  (split_on CHR 0x00 (rstrip_with (\<lambda>c. c = CHR 0x00) out))
                  (w0\<lparr>files := fs1\<rparr>)"
    by (simp add: copy_repo_files_def andthen_def git_def)
next
  show "\<forall>src \<in> set listing.
            is_dir (parent (joinpath (archive_top_level_dir paths) src))
              (files (snd (for_each (copy_repo_file root_dir paths) listing w)))"
    using for_each_parent_dirs [OF ok] by blast
next
  assume "re_search GITKEEP_RE src"
  then show "copy_repo_file root_dir paths src
              = fs_op (mkdir_parents (parent (joinpath (archive_top_level_dir paths) src)) True)"
    by (intro ext)
       (simp add: copy_repo_file_def andthen_def ret_def Let_def split: prod.splits sum.splits)
next
  assume h: "m \<in> set listing \<and> re_search GITKEEP_RE m
            \<and> joinpath (archive_top_level_dir paths) m = archive_top_level_dir paths @ d @ [x]
            \<and> nothing_below (archive_top_level_dir paths @ d) (files w)
            \<and> (\<forall>s \<in> set listing.
                  take (length (archive_top_level_dir paths @ d))
                       (joinpath (archive_top_level_dir paths) s)
                    = archive_top_level_dir paths @ d
                  \<longrightarrow> re_search GITKEEP_RE s
                      \<and> parent (joinpath (archive_top_level_dir paths) s)
                          = archive_top_level_dir paths @ d)"
  then have m: "m \<in> set listing"
    and j: "joinpath (archive_top_level_dir paths) m = archive_top_level_dir paths @ d @ [x]"
    by simp_all
  from j have "parent (joinpath (archive_top_level_dir paths) m) = archive_top_level_dir paths @ d"
    by (simp add: parent_def butlast_append)
  with for_each_parent_dirs [OF ok m]
  show "is_dir (archive_top_level_dir paths @ d)
          (files (snd (for_each (copy_repo_file root_dir paths) listing w)))"
    by simp
next
  assume h: "m \<in> set listing \<and> re_search GITKEEP_RE m
            \<and> joinpath (archive_top_level_dir paths) m = archive_top_level_dir paths @ d @ [x]
            \<and> nothing_below (archive_top_level_dir paths @ d) (files w)
            \<and> (\<forall>s \<in> set listing.
                  take (length (archive_top_level_dir paths @ d))
                       (joinpath (archive_top_level_dir paths) s)
                    = archive_top_level_dir paths @ d
                  \<longrightarrow> re_search GITKEEP_RE s
                      \<and> parent (joinpath (archive_top_level_dir paths) s)
                          = archive_top_level_dir paths @ d)"
  then have n: "nothing_below (archive_top_level_dir paths @ d) (files w)"
    and c: "\<And>s. s \<in> set listing \<Longrightarrow>
              take (length (archive_top_level_dir paths @ d))
                (joinpath (archive_top_level_dir paths) s) = archive_top_level_dir paths @ d \<Longrightarrow>
              re_search GITKEEP_RE s
              \<and> parent (joinpath (archive_top_level_dir paths) s) = archive_top_level_dir paths @ d"
    by simp_all
  show "nothing_below (archive_top_level_dir paths @ d)
          (files (snd (for_each (copy_repo_file root_dir paths) listing w)))"
    by (rule for_each_nothing_below [OF ok n]) (rule c)
qed

lemma example_top:
  "archive_top_level_dir example_paths
   = [''repo'', ''build-src-dist'', ''archive'', ''devilutionx-src-1.2.3'']"
  by (simp add: example_paths_def Paths_init_def Version_init_def contains_char_def Let_def
      ARCHIVE_DIR_def BUILD_DIR_def joinpath_def parse_parts_def)

lemma example_nothing_below_assets:
  "nothing_below ([''repo'', ''build-src-dist'', ''archive'', ''devilutionx-src-1.2.3'']
                  @ [''assets'']) example_files"
  by (auto simp: nothing_below_def example_files_def DEPS_def DEPS_NOT_VENDORED_BY_DEFAULT_def)

theorem source_collector_marker_directories_witness:
  "run example_ok_env [''git'', ''ls-files'', ''-z''] [''repo''] (files example_world)
     = Completed 0 example_ls_files example_files
   \<and> split_on CHR 0x00 (rstrip_with (\<lambda>c. c = CHR 0x00) example_ls_files)
     = [''VERSION'', ''assets/.gitkeep'']
   \<and> copy_repo_files example_ok_env [''repo''] example_paths example_world
     = for_each (copy_repo_file [''repo''] example_paths) [''VERSION'', ''assets/.gitkeep'']
         (example_world\<lparr>files := example_files\<rparr>)
   \<and> fst (for_each (copy_repo_file [''repo''] example_paths) [''VERSION'', ''assets/.gitkeep'']
          example_world) = Inr ()
   \<and> re_search GITKEEP_RE ''assets/.gitkeep''
   \<and> nothing_below (archive_top_level_dir example_paths @ [''assets'']) (files example_world)
   \<and> is_dir (archive_top_level_dir example_paths)
       (files (snd (for_each (copy_repo_file [''repo''] example_paths)
                      [''VERSION'', ''assets/.gitkeep''] example_world)))
   \<and> is_dir (archive_top_level_dir example_paths @ [''assets''])
       (files (snd (for_each (copy_repo_file [''repo''] example_paths)
                      [''VERSION'', ''assets/.gitkeep''] example_world)))
   \<and> nothing_below (archive_top_level_dir example_paths @ [''assets''])
       (files (snd (for_each (copy_repo_file [''repo''] example_paths)
                      [''VERSION'', ''assets/.gitkeep''] example_world)))
   \<and> copy_repo_file [''repo''] example_paths ''assets/.gitkeep''
       = fs_op (mkdir_parents (archive_top_level_dir example_paths @ [''assets'']) True)"
proof -
  let ?listing = "[''VERSION'', ''assets/.gitkeep'']"
  have ls: "run example_ok_env [''git'', ''ls-files'', ''-z''] [''repo''] (files example_world)
            = Completed 0 example_ls_files example_files"
    by (simp add: example_ok_env_def example_env_def example_world_def)
  have sp: "split_on CHR 0x00 (rstrip_with (\<lambda>c. c = CHR 0x00) example_ls_files) = ?listing"
    by (simp add: example_ls_files_def rstrip_with_def)
  have ok: "fst (for_each (copy_repo_file [''repo''] example_paths) ?listing example_world)
            = Inr ()"
    by code_simp
  have mk: "re_search GITKEEP_RE ''assets/.gitkeep''"
    by (simp add: re_search_def GITKEEP_RE_def)
  have j: "joinpath (archive_top_level_dir example_paths) ''assets/.gitkeep''
           = archive_top_level_dir example_paths @ [''assets''] @ [''.gitkeep'']"
    by (simp add: joinpath_def parse_parts_def)
  have jv: "joinpath (archive_top_level_dir example_paths) ''VERSION''
           = archive_top_level_dir example_paths @ [''VERSION'']"
    by (simp add: joinpath_def parse_parts_def)
  have n: "nothing_below (archive_top_level_dir example_paths @ [''assets''])
             (files example_world)"
    using example_nothing_below_assets by (simp add: example_top example_world_def)
  have only: "\<forall>s \<in> set ?listing.
        take (length (archive_top_level_dir example_paths @ [''assets'']))
             (joinpath (archive_top_level_dir example_paths) s)
          = archive_top_level_dir example_paths @ [''assets'']
        \<longrightarrow> re_search GITKEEP_RE s
            \<and> parent (joinpath (archive_top_level_dir example_paths) s)
                = archive_top_level_dir example_paths @ [''assets'']"
    using mk by (simp add: j jv parent_def butlast_append)
  have pv: "parent (joinpath (archive_top_level_dir example_paths) ''VERSION'')
            = archive_top_level_dir example_paths"
    by (simp add: jv parent_def)
  from source_collector_marker_directories
         [OF ok, where ev = example_ok_env and ?w0.0 = example_world and returncode = 0
            and out = example_ls_files and ?fs1.0 = example_files
            and src = "''assets/.gitkeep''" and m = "''assets/.gitkeep''"
            and d = "[''assets'']" and x = "''.gitkeep''"]
    ls sp mk j n only
  have l: "copy_repo_files example_ok_env [''repo''] example_paths example_world
            = for_each (copy_repo_file [''repo''] example_paths) ?listing
                (example_world\<lparr>files := example_files\<rparr>)"
    and a: "\<forall>src \<in> set ?listing.
            is_dir (parent (joinpath (archive_top_level_dir example_paths) src))
              (files (snd (for_each (copy_repo_file [''repo''] example_paths) ?listing
                             example_world)))"
    and b: "copy_repo_file [''repo''] example_paths ''assets/.gitkeep''
            = fs_op (mkdir_parents
                       (parent (joinpath (archive_top_level_dir example_paths) ''assets/.gitkeep''))
                       True)"
    and c: "is_dir (archive_top_level_dir example_paths @ [''assets''])
              (files (snd (for_each (copy_repo_file [''repo''] example_paths) ?listing
                             example_world)))
            \<and> nothing_below (archive_top_level_dir example_paths @ [''assets''])
              (files (snd (for_each (copy_repo_file [''repo''] example_paths) ?listing
                             example_world)))"
    by simp_all
  from a pv have v: "is_dir (archive_top_level_dir example_paths)
       (files (snd (for_each (copy_repo_file [''repo''] example_paths) ?listing example_world)))"
    by (metis list.set_intros(1))
  from b j have b': "copy_repo_file [''repo''] example_paths ''assets/.gitkeep''
       = fs_op (mkdir_parents (archive_top_level_dir example_paths @ [''assets'']) True)"
    by (simp add: parent_def butlast_append)
  from ls sp l ok mk n v c b' show ?thesis by blast
qed

subsection \<open>C9: the content of the generated configuration file\<close>

lemma andthen_InrE:
  assumes "fst (andthen m f w) = Inr y"
  obtains x w' where "m w = (Inr x, w')" and "fst (f x w') = Inr y"
    and "andthen m f w = f x w'"
  using assms by (auto simp: andthen_def split: prod.splits sum.splits)

lemma get_version_Inr:
  assumes "get_version ev root_dir cwd w = (Inr version, w')"
  shows "\<exists>p returncode out fs fs'.
           run ev [''git'', ''rev-parse'', ''--short'', ''HEAD''] root_dir fs
             = Completed returncode out fs'
           \<and> version = Version_init p (rstrip_with bytes_space out)"
  using assms
  by (auto simp: get_version_def andthen_def git_def ret_def
      split: prod.splits sum.splits process.splits) blast+

lemma write_dist_cmakelists_Inr:
  assumes "write_dist_cmakelists paths version fully_vendored w = (Inr (), w')"
  shows "files w' (joinpath (dist_dir paths) ''CMakeLists.txt'')
         = Some (File (cmakelists_content version fully_vendored))"
  using assms
  by (auto simp: write_dist_cmakelists_def fs_op_def write_file_def
      split: sum.splits option.splits node.splits)

text \<open>The stages of a run of \<open>main\<close> that ends normally, as far as the writer needs them.\<close>

lemma main_Inr:
  assumes "fst (main ev root_dir cwd fully_vendored w) = Inr ()"
  shows "\<exists>version w1 w2 w3 w4 name w5.
           get_version ev root_dir cwd w1 = (Inr version, w2)
         \<and> write_dist_cmakelists (Paths_init root_dir version fully_vendored)
              version fully_vendored w3 = (Inr (), w4)
         \<and> make_archive ev root_dir (Paths_init root_dir version fully_vendored)
              fully_vendored w4 = (Inr name, w5)
         \<and> main ev root_dir cwd fully_vendored w = (Inr (), w5\<lparr>stdout := stdout w5 @ [name]\<rparr>)"
  using assms unfolding main_def Let_def
  apply (elim andthen_InrE)
  apply simp
  apply blast
  done

lemma cmakelists_content_cong:
  "commit_sha v1 = commit_sha v2 \<Longrightarrow>
   cmakelists_content v1 fully_vendored = cmakelists_content v2 fully_vendored"
  by (simp add: cmakelists_content_def)

lemma main_archived_config:
  assumes ok: "fst (main ev root_dir cwd fully_vendored w) = Inr ()"
    and rv: "revision_is ev root_dir sha"
  shows "archived_config ev root_dir cwd fully_vendored w
           (cmakelists_content (Version_init [] sha) fully_vendored)"
proof -
  from main_Inr [OF ok] obtain version w1 w2 w3 w4 name w5 where
    g: "get_version ev root_dir cwd w1 = (Inr version, w2)"
    and c: "write_dist_cmakelists (Paths_init root_dir version fully_vendored)
              version fully_vendored w3 = (Inr (), w4)"
    and a: "make_archive ev root_dir (Paths_init root_dir version fully_vendored)
              fully_vendored w4 = (Inr name, w5)"
    and m: "main ev root_dir cwd fully_vendored w = (Inr (), w5\<lparr>stdout := stdout w5 @ [name]\<rparr>)"
    by blast
  from get_version_Inr [OF g] obtain p returncode out fs fs' where
    r: "run ev [''git'', ''rev-parse'', ''--short'', ''HEAD''] root_dir fs
          = Completed returncode out fs'"
    and v: "version = Version_init p (rstrip_with bytes_space out)"
    by blast
  from rv r have "rstrip_with bytes_space out = sha"
    unfolding revision_is_def by blast
  with v have "commit_sha version = sha"
    by (simp add: Version_init_def)
  then have "commit_sha version = commit_sha (Version_init [] sha)"
    by (simp add: Version_init_def)
  from cmakelists_content_cong [OF this] write_dist_cmakelists_Inr [OF c]
  have "files w4 (joinpath (dist_dir (Paths_init root_dir version fully_vendored))
                    ''CMakeLists.txt'')
        = Some (File (cmakelists_content (Version_init [] sha) fully_vendored))"
    by simp
  with a m show ?thesis
    unfolding archived_config_def by blast
qed

text \<open>
  C9. The bytes of the generated configuration file are a function of the revision
  identifier of the version and of the mode: they do not depend on the version prefix,
  on the paths, or on the file system the writer finds. A run of the writer that
  returns leaves exactly these bytes in \<open>CMakeLists.txt\<close> of the distribution directory,
  whatever was there. So two runs of the pipeline that end normally, in the same mode
  and with a revision lookup that prints the same revision, archive a tree with the
  same bytes in the generated configuration file, wherever each run starts from (the
  second may find the output directory of the first).
\<close>

theorem cmakelists_content_deterministic:
  "(commit_sha va = commit_sha vb \<longrightarrow>
      cmakelists_content va fully_vendored = cmakelists_content vb fully_vendored)
   \<and> (fst (write_dist_cmakelists paths version fully_vendored w) = Inr () \<longrightarrow>
        files (snd (write_dist_cmakelists paths version fully_vendored w))
          (joinpath (dist_dir paths) ''CMakeLists.txt'')
        = Some (File (cmakelists_content version fully_vendored)))
   \<and> (fst (main eva root_dir cwd fully_vendored wa) = Inr ()
        \<and> fst (main evb root_dir cwd fully_vendored wb) = Inr ()
        \<and> revision_is eva root_dir sha \<and> revision_is evb root_dir sha \<longrightarrow>
        (\<exists>content. archived_config eva root_dir cwd fully_vendored wa content
                   \<and> archived_config evb root_dir cwd fully_vendored wb content))"
proof (intro conjI impI)
  assume "commit_sha va = commit_sha vb"
  then show "cmakelists_content va fully_vendored = cmakelists_content vb fully_vendored"
    by (rule cmakelists_content_cong)
next
  assume "fst (write_dist_cmakelists paths version fully_vendored w) = Inr ()"
  then have "write_dist_cmakelists paths version fully_vendored w
             = (Inr (), snd (write_dist_cmakelists paths version fully_vendored w))"
    by (metis prod.collapse)
  then show "files (snd (write_dist_cmakelists paths version fully_vendored w))
          (joinpath (dist_dir paths) ''CMakeLists.txt'')
        = Some (File (cmakelists_content version fully_vendored))"
    by (rule write_dist_cmakelists_Inr)
next
  assume h: "fst (main eva root_dir cwd fully_vendored wa) = Inr ()
        \<and> fst (main evb root_dir cwd fully_vendored wb) = Inr ()
        \<and> revision_is eva root_dir sha \<and> revision_is evb root_dir sha"
  then have "archived_config eva root_dir cwd fully_vendored wa
               (cmakelists_content (Version_init [] sha) fully_vendored)"
    and "archived_config evb root_dir cwd fully_vendored wb
               (cmakelists_content (Version_init [] sha) fully_vendored)"
    by (simp_all add: main_archived_config)
  then show "\<exists>content. archived_config eva root_dir cwd fully_vendored wa content
                   \<and> archived_config evb root_dir cwd fully_vendored wb content"
    by blast
qed

theorem cmakelists_content_deterministic_witness:
  "commit_sha (Version_init ''1.2.3'' ''abc1234'')
     = commit_sha (Version_init ''1.2.4-rc'' ''abc1234'')
   \<and> cmakelists_content (Version_init ''1.2.3'' ''abc1234'') False
     = cmakelists_content (Version_init ''1.2.4-rc'' ''abc1234'') False
   \<and> fst (main example_ok_env [''repo''] [''repo''] False example_world) = Inr ()
   \<and> fst (main example_ok_env [''repo''] [''repo''] False
            (snd (main example_ok_env [''repo''] [''repo''] False example_world))) = Inr ()
   \<and> revision_is example_ok_env [''repo''] ''abc1234''
   \<and> (\<exists>content.
         archived_config example_ok_env [''repo''] [''repo''] False example_world content
         \<and> archived_config example_ok_env [''repo''] [''repo''] False
             (snd (main example_ok_env [''repo''] [''repo''] False example_world)) content)
   \<and> fst (write_dist_cmakelists example_paths (Version_init ''1.2.3'' ''abc1234'') False
            (snd (main example_ok_env [''repo''] [''repo''] False example_world))) = Inr ()
   \<and> files (snd (write_dist_cmakelists example_paths (Version_init ''1.2.3'' ''abc1234'') False
                   (snd (main example_ok_env [''repo''] [''repo''] False example_world))))
        (joinpath (dist_dir example_paths) ''CMakeLists.txt'')
      = Some (File (cmakelists_content (Version_init ''1.2.3'' ''abc1234'') False))"
proof -
  let ?first = "main example_ok_env [''repo''] [''repo''] False example_world"
  have s: "commit_sha (Version_init ''1.2.3'' ''abc1234'')
           = commit_sha (Version_init ''1.2.4-rc'' ''abc1234'')"
    by (simp add: Version_init_def)
  have r1: "fst ?first = Inr ()"
    by code_simp
  have r2: "fst (main example_ok_env [''repo''] [''repo''] False (snd ?first)) = Inr ()"
    by code_simp
  have rv: "revision_is example_ok_env [''repo''] ''abc1234''"
    by (simp add: revision_is_def example_ok_env_def example_env_def rstrip_with_def
        bytes_space_def nl_def)
  have wr: "fst (write_dist_cmakelists example_paths (Version_init ''1.2.3'' ''abc1234'') False
                  (snd ?first)) = Inr ()"
    by code_simp
  from s r1 r2 rv wr
    cmakelists_content_deterministic
      [where va = "Version_init ''1.2.3'' ''abc1234''"
         and vb = "Version_init ''1.2.4-rc'' ''abc1234''"
         and fully_vendored = False and paths = example_paths
         and version = "Version_init ''1.2.3'' ''abc1234''" and w = "snd ?first"
         and eva = example_ok_env and evb = example_ok_env
         and root_dir = "[''repo'']" and cwd = "[''repo'']"
         and wa = example_world and wb = "snd ?first" and sha = "''abc1234''"]
  show ?thesis by blast
qed

subsection \<open>C6: when an external program fails\<close>

text \<open>
  With \<open>cmake\<close> ending with return code 1 at the configure step and at the build step,
  and \<open>git rev-parse\<close> ending with return code 128, the run goes through every later
  stage, ends normally and prints the name of the archive.
\<close>

theorem nonzero_return_code_run_continues:
  "run example_failing_env (''cmake'' # configure_args [''repo''] False) [''repo'']
       example_files
     = Completed 1 [] example_files
   \<and> run example_failing_env
       [''cmake'', ''--build'', ''/repo/build-src-dist'', ''--target'', ''devilutionx_mpq'']
       [''repo''] example_files
     = Completed 1 [] example_files
   \<and> run example_failing_env [''git'', ''rev-parse'', ''--short'', ''HEAD''] [''repo'']
       example_files
     = Completed 128 [] example_files
   \<and> fst (main example_failing_env [''repo''] [''repo''] False example_world) = Inr ()
   \<and> stdout (snd (main example_failing_env [''repo''] [''repo''] False example_world))
     = [''/repo/build-src-dist/devilutionx-src-1.2.3.tar.xz'']
   \<and> stderr (snd (main example_failing_env [''repo''] [''repo''] False example_world))
     = [CmakeLine (configure_args [''repo''] False),
        CmakeLine [''--build'', ''/repo/build-src-dist'', ''--target'', ''devilutionx_mpq''],
        Info ''Copying repo files...'', Info ''Copying devilutionx.mpq...'',
        Info ''Copying asio...'', Info ''Copying libmpq...'', Info ''Copying libsmackerdec...'',
        Info ''Copying libzt...'', Info ''Copying sdl_audiolib...'', Info ''Copying simpleini...'',
        Info ''Copying unordered_dense...'', Info ''Compressing /repo/build-src-dist/archive'',
        Info ''Creating tar archive'']"
proof -
  have a: "run example_failing_env (''cmake'' # configure_args [''repo''] False) [''repo'']
             example_files = Completed 1 [] example_files"
    by (simp add: example_failing_env_def example_env_def configure_args_def)
  have b: "run example_failing_env
             [''cmake'', ''--build'', ''/repo/build-src-dist'', ''--target'', ''devilutionx_mpq'']
             [''repo''] example_files = Completed 1 [] example_files"
    by (simp add: example_failing_env_def example_env_def)
  have c: "run example_failing_env [''git'', ''rev-parse'', ''--short'', ''HEAD''] [''repo'']
             example_files = Completed 128 [] example_files"
    by (simp add: example_failing_env_def example_env_def)
  have d: "fst (main example_failing_env [''repo''] [''repo''] False example_world) = Inr ()"
    by code_simp
  have e: "stdout (snd (main example_failing_env [''repo''] [''repo''] False example_world))
           = [''/repo/build-src-dist/devilutionx-src-1.2.3.tar.xz'']"
    by code_simp
  have f: "stderr (snd (main example_failing_env [''repo''] [''repo''] False example_world))
     = [CmakeLine (configure_args [''repo''] False),
        CmakeLine [''--build'', ''/repo/build-src-dist'', ''--target'', ''devilutionx_mpq''],
        Info ''Copying repo files...'', Info ''Copying devilutionx.mpq...'',
        Info ''Copying asio...'', Info ''Copying libmpq...'', Info ''Copying libsmackerdec...'',
        Info ''Copying libzt...'', Info ''Copying sdl_audiolib...'', Info ''Copying simpleini...'',
        Info ''Copying unordered_dense...'', Info ''Compressing /repo/build-src-dist/archive'',
        Info ''Creating tar archive'']"
    by code_simp
  from a b c d e f show ?thesis by blast
qed

text \<open>
  C6 (as the code has it). A program that cannot be found raises \<open>FileNotFoundError\<close> in
  its wrapper, and the run ends there: when it is the configure step, the build step or
  the revision lookup, \<open>main\<close> ends with that error in the world the stages before have
  left (plus the log line of the \<open>cmake\<close> wrapper), and no later stage has run. A
  program that runs to its end makes its wrapper return, \<open>git\<close> with the output, whatever
  the return code is.
\<close>

theorem external_program_failures:
  "(run ev (''cmake'' # cmd_args) root_dir (files w) = NotFound \<longrightarrow>
      cmake ev root_dir cmd_args w
        = (Inl FileNotFoundError, w\<lparr>stderr := stderr w @ [CmakeLine cmd_args]\<rparr>))
   \<and> (run ev (''git'' # cmd_args) root_dir (files w) = NotFound \<longrightarrow>
      git ev root_dir cmd_args w = (Inl FileNotFoundError, w))
   \<and> (run ev (''cmake'' # cmd_args) root_dir (files w) = Completed returncode out fs' \<longrightarrow>
      cmake ev root_dir cmd_args w
        = (Inr (), w\<lparr>stderr := stderr w @ [CmakeLine cmd_args], files := fs'\<rparr>))
   \<and> (run ev (''git'' # cmd_args) root_dir (files w) = Completed returncode out fs' \<longrightarrow>
      git ev root_dir cmd_args w = (Inr out, w\<lparr>files := fs'\<rparr>))
   \<and> (run ev (''cmake'' # configure_args root_dir fully_vendored) root_dir (files w) = NotFound
      \<longrightarrow>
      main ev root_dir cwd fully_vendored w
        = (Inl FileNotFoundError,
           w\<lparr>stderr := stderr w @ [CmakeLine (configure_args root_dir fully_vendored)]\<rparr>))
   \<and> (run ev (''cmake'' # configure_args root_dir fully_vendored) root_dir (files w)
        = Completed c1 o1 fs1
      \<and> run ev [''cmake'', ''--build'', path_str (BUILD_DIR root_dir), ''--target'',
                 ''devilutionx_mpq''] root_dir fs1 = NotFound
      \<longrightarrow>
      main ev root_dir cwd fully_vendored w
        = (Inl FileNotFoundError,
           w\<lparr>stderr := stderr w @ [CmakeLine (configure_args root_dir fully_vendored),
                                    CmakeLine [''--build'', path_str (BUILD_DIR root_dir),
                                               ''--target'', ''devilutionx_mpq'']],
             files := fs1\<rparr>))
   \<and> (run ev (''cmake'' # configure_args root_dir fully_vendored) root_dir (files w)
        = Completed c1 o1 fs1
      \<and> run ev [''cmake'', ''--build'', path_str (BUILD_DIR root_dir), ''--target'',
                 ''devilutionx_mpq''] root_dir fs1 = Completed c2 o2 fs2
      \<and> (if exists (ARCHIVE_DIR root_dir) fs2 then rmtree (ARCHIVE_DIR root_dir) fs2
          else Inr fs2) = Inr fs3
      \<and> read_file (joinpath cwd ''VERSION'') fs3 = Inr content
      \<and> run ev [''git'', ''rev-parse'', ''--short'', ''HEAD''] root_dir fs3 = NotFound
      \<longrightarrow>
      main ev root_dir cwd fully_vendored w
        = (Inl FileNotFoundError,
           w\<lparr>stderr := stderr w @ [CmakeLine (configure_args root_dir fully_vendored),
                                    CmakeLine [''--build'', path_str (BUILD_DIR root_dir),
                                               ''--target'', ''devilutionx_mpq'']],
             files := fs3\<rparr>))"
proof (intro conjI impI)
  assume "run ev (''cmake'' # cmd_args) root_dir (files w) = NotFound"
  then show "cmake ev root_dir cmd_args w
        = (Inl FileNotFoundError, w\<lparr>stderr := stderr w @ [CmakeLine cmd_args]\<rparr>)"
    by (simp add: cmake_def)
next
  assume "run ev (''git'' # cmd_args) root_dir (files w) = NotFound"
  then show "git ev root_dir cmd_args w = (Inl FileNotFoundError, w)"
    by (simp add: git_def)
next
  assume "run ev (''cmake'' # cmd_args) root_dir (files w) = Completed returncode out fs'"
  then show "cmake ev root_dir cmd_args w
        = (Inr (), w\<lparr>stderr := stderr w @ [CmakeLine cmd_args], files := fs'\<rparr>)"
    by (simp add: cmake_def)
next
  assume "run ev (''git'' # cmd_args) root_dir (files w) = Completed returncode out fs'"
  then show "git ev root_dir cmd_args w = (Inr out, w\<lparr>files := fs'\<rparr>)"
    by (simp add: git_def)
next
  assume "run ev (''cmake'' # configure_args root_dir fully_vendored) root_dir (files w)
          = NotFound"
  then show "main ev root_dir cwd fully_vendored w
        = (Inl FileNotFoundError,
           w\<lparr>stderr := stderr w @ [CmakeLine (configure_args root_dir fully_vendored)]\<rparr>)"
    by (simp add: main_def andthen_def cmake_def)
next
  assume "run ev (''cmake'' # configure_args root_dir fully_vendored) root_dir (files w)
        = Completed c1 o1 fs1
      \<and> run ev [''cmake'', ''--build'', path_str (BUILD_DIR root_dir), ''--target'',
                 ''devilutionx_mpq''] root_dir fs1 = NotFound"
  then show "main ev root_dir cwd fully_vendored w
        = (Inl FileNotFoundError,
           w\<lparr>stderr := stderr w @ [CmakeLine (configure_args root_dir fully_vendored),
                                    CmakeLine [''--build'', path_str (BUILD_DIR root_dir),
                                               ''--target'', ''devilutionx_mpq'']],
             files := fs1\<rparr>)"
    by (simp add: main_def andthen_def cmake_def)
next
  assume "run ev (''cmake'' # configure_args root_dir fully_vendored) root_dir (files w)
        = Completed c1 o1 fs1
      \<and> run ev [''cmake'', ''--build'', path_str (BUILD_DIR root_dir), ''--target'',
                 ''devilutionx_mpq''] root_dir fs1 = Completed c2 o2 fs2
      \<and> (if exists (ARCHIVE_DIR root_dir) fs2 then rmtree (ARCHIVE_DIR root_dir) fs2
          else Inr fs2) = Inr fs3
      \<and> read_file (joinpath cwd ''VERSION'') fs3 = Inr content
      \<and> run ev [''git'', ''rev-parse'', ''--short'', ''HEAD''] root_dir fs3 = NotFound"
  then show "main ev root_dir cwd fully_vendored w
        = (Inl FileNotFoundError,
           w\<lparr>stderr := stderr w @ [CmakeLine (configure_args root_dir fully_vendored),
                                    CmakeLine [''--build'', path_str (BUILD_DIR root_dir),
                                               ''--target'', ''devilutionx_mpq'']],
             files := fs3\<rparr>)"
    by (auto simp: main_def andthen_def cmake_def fs_op_def ret_def get_version_def git_def
        split: if_splits)
qed

theorem external_program_failures_witness:
  "run (example_env (\<lambda>fs. NotFound) (\<lambda>fs. NotFound) (\<lambda>fs. NotFound) (\<lambda>fs. NotFound))
       (''cmake'' # configure_args [''repo''] False) [''repo''] (files example_world)
     = NotFound
   \<and> cmake (example_env (\<lambda>fs. NotFound) (\<lambda>fs. NotFound) (\<lambda>fs. NotFound) (\<lambda>fs. NotFound))
       [''repo''] (configure_args [''repo''] False) example_world
     = (Inl FileNotFoundError,
        example_world\<lparr>stderr := stderr example_world
                                 @ [CmakeLine (configure_args [''repo''] False)]\<rparr>)
   \<and> main (example_env (\<lambda>fs. NotFound) (\<lambda>fs. NotFound) (\<lambda>fs. NotFound) (\<lambda>fs. NotFound))
       [''repo''] [''repo''] False example_world
     = (Inl FileNotFoundError,
        example_world\<lparr>stderr := stderr example_world
                                 @ [CmakeLine (configure_args [''repo''] False)]\<rparr>)
   \<and> run (example_env (\<lambda>fs. NotFound) (\<lambda>fs. NotFound) (\<lambda>fs. NotFound) (\<lambda>fs. NotFound))
       (''git'' # [''rev-parse'', ''--short'', ''HEAD'']) [''repo''] (files example_world)
     = NotFound
   \<and> git (example_env (\<lambda>fs. NotFound) (\<lambda>fs. NotFound) (\<lambda>fs. NotFound) (\<lambda>fs. NotFound))
       [''repo''] [''rev-parse'', ''--short'', ''HEAD''] example_world
     = (Inl FileNotFoundError, example_world)
   \<and> run example_failing_env (''cmake'' # configure_args [''repo''] False) [''repo'']
       (files example_world)
     = Completed 1 [] example_files
   \<and> cmake example_failing_env [''repo''] (configure_args [''repo''] False) example_world
     = (Inr (), example_world\<lparr>stderr := stderr example_world
                                          @ [CmakeLine (configure_args [''repo''] False)],
                                files := example_files\<rparr>)
   \<and> run example_failing_env (''git'' # [''rev-parse'', ''--short'', ''HEAD'']) [''repo'']
       (files example_world)
     = Completed 128 [] example_files
   \<and> git example_failing_env [''repo''] [''rev-parse'', ''--short'', ''HEAD''] example_world
     = (Inr [], example_world\<lparr>files := example_files\<rparr>)
   \<and> run (example_env (Completed 0 []) (\<lambda>fs. NotFound) (\<lambda>fs. NotFound) (\<lambda>fs. NotFound))
       [''cmake'', ''--build'', path_str (BUILD_DIR [''repo'']), ''--target'', ''devilutionx_mpq'']
       [''repo''] example_files
     = NotFound
   \<and> main (example_env (Completed 0 []) (\<lambda>fs. NotFound) (\<lambda>fs. NotFound) (\<lambda>fs. NotFound))
       [''repo''] [''repo''] False example_world
     = (Inl FileNotFoundError,
        example_world\<lparr>stderr := stderr example_world
                        @ [CmakeLine (configure_args [''repo''] False),
                           CmakeLine [''--build'', path_str (BUILD_DIR [''repo'']), ''--target'',
                                      ''devilutionx_mpq'']],
                      files := example_files\<rparr>)
   \<and> read_file (joinpath [''repo''] ''VERSION'') example_files = Inr (''1.2.3'' @ nl)
   \<and> run (example_env (Completed 0 []) (Completed 0 []) (\<lambda>fs. NotFound)
            (Completed 0 example_ls_files))
       [''git'', ''rev-parse'', ''--short'', ''HEAD''] [''repo''] example_files
     = NotFound
   \<and> main (example_env (Completed 0 []) (Completed 0 []) (\<lambda>fs. NotFound)
             (Completed 0 example_ls_files))
       [''repo''] [''repo''] False example_world
     = (Inl FileNotFoundError,
        example_world\<lparr>stderr := stderr example_world
                        @ [CmakeLine (configure_args [''repo''] False),
                           CmakeLine [''--build'', path_str (BUILD_DIR [''repo'']), ''--target'',
                                      ''devilutionx_mpq'']],
                      files := example_files\<rparr>)"
proof -
  let ?none = "example_env (\<lambda>fs. NotFound) (\<lambda>fs. NotFound) (\<lambda>fs. NotFound) (\<lambda>fs. NotFound)"
  let ?nobuild = "example_env (Completed 0 []) (\<lambda>fs. NotFound) (\<lambda>fs. NotFound) (\<lambda>fs. NotFound)"
  let ?nogit = "example_env (Completed 0 []) (Completed 0 []) (\<lambda>fs. NotFound)
                  (Completed 0 example_ls_files)"
  let ?build = "[''cmake'', ''--build'', path_str (BUILD_DIR [''repo'']), ''--target'',
                 ''devilutionx_mpq'']"
  let ?revparse = "[''rev-parse'', ''--short'', ''HEAD'']"
  have f: "files example_world = example_files"
    by (simp add: example_world_def)
  have conf: "take 1 (configure_args [''repo''] False) \<noteq> [''--build'']"
    by (simp add: configure_args_def)
  have a1: "run ?none (''cmake'' # configure_args [''repo''] False) [''repo'']
              (files example_world) = NotFound"
    by (simp add: example_env_def)
  have a2: "run ?none (''git'' # ?revparse) [''repo''] (files example_world) = NotFound"
    by (simp add: example_env_def)
  have b1: "run example_failing_env (''cmake'' # configure_args [''repo''] False) [''repo'']
              (files example_world) = Completed 1 [] example_files"
    using conf by (simp add: example_failing_env_def example_env_def f)
  have b2: "run example_failing_env (''git'' # ?revparse) [''repo''] (files example_world)
            = Completed 128 [] example_files"
    by (simp add: example_failing_env_def example_env_def f)
  have c1: "run ?nobuild (''cmake'' # configure_args [''repo''] False) [''repo'']
              (files example_world) = Completed 0 [] example_files"
    using conf by (simp add: example_env_def f)
  have c2: "run ?nobuild ?build [''repo''] example_files = NotFound"
    by (simp add: example_env_def)
  have d1: "run ?nogit (''cmake'' # configure_args [''repo''] False) [''repo'']
              (files example_world) = Completed 0 [] example_files"
    using conf by (simp add: example_env_def f)
  have d2: "run ?nogit ?build [''repo''] example_files = Completed 0 [] example_files"
    by (simp add: example_env_def)
  have "\<not> exists (ARCHIVE_DIR [''repo'']) example_files"
    by code_simp
  then have d3: "(if exists (ARCHIVE_DIR [''repo'']) example_files
                  then rmtree (ARCHIVE_DIR [''repo'']) example_files
                  else Inr example_files) = Inr example_files"
    by simp
  have d4: "read_file (joinpath [''repo''] ''VERSION'') example_files = Inr (''1.2.3'' @ nl)"
    by code_simp
  have d5: "run ?nogit [''git'', ''rev-parse'', ''--short'', ''HEAD''] [''repo''] example_files
            = NotFound"
    by (simp add: example_env_def)
  note none = external_program_failures
    [where ev = ?none and root_dir = "[''repo'']" and cwd = "[''repo'']" and w = example_world
       and fully_vendored = False]
  note failing = external_program_failures
    [where ev = example_failing_env and root_dir = "[''repo'']" and w = example_world
       and fs' = example_files]
  note nobuild = external_program_failures
    [where ev = ?nobuild and root_dir = "[''repo'']" and cwd = "[''repo'']" and w = example_world
       and fully_vendored = False and ?c1.0 = 0 and ?o1.0 = "[]" and ?fs1.0 = example_files]
  note nogit = external_program_failures
    [where ev = ?nogit and root_dir = "[''repo'']" and cwd = "[''repo'']" and w = example_world
       and fully_vendored = False and ?c1.0 = 0 and ?o1.0 = "[]" and ?fs1.0 = example_files
       and ?c2.0 = 0 and ?o2.0 = "[]" and ?fs2.0 = example_files and ?fs3.0 = example_files
       and content = "''1.2.3'' @ nl"]
  from a1 none have r1: "cmake ?none [''repo''] (configure_args [''repo''] False) example_world
     = (Inl FileNotFoundError,
        example_world\<lparr>stderr := stderr example_world
                                 @ [CmakeLine (configure_args [''repo''] False)]\<rparr>)"
    by blast
  from a1 none have r2: "main ?none [''repo''] [''repo''] False example_world
     = (Inl FileNotFoundError,
        example_world\<lparr>stderr := stderr example_world
                                 @ [CmakeLine (configure_args [''repo''] False)]\<rparr>)"
    by blast
  from a2 none have r3: "git ?none [''repo''] ?revparse example_world
     = (Inl FileNotFoundError, example_world)"
    by blast
  from b1 failing
  have r4: "cmake example_failing_env [''repo''] (configure_args [''repo''] False) example_world
     = (Inr (), example_world\<lparr>stderr := stderr example_world
                                          @ [CmakeLine (configure_args [''repo''] False)],
                                files := example_files\<rparr>)"
    by blast
  from b2 failing
  have r5: "git example_failing_env [''repo''] ?revparse example_world
     = (Inr [], example_world\<lparr>files := example_files\<rparr>)"
    by blast
  from c1 c2 nobuild have r6: "main ?nobuild [''repo''] [''repo''] False example_world
     = (Inl FileNotFoundError,
        example_world\<lparr>stderr := stderr example_world
                        @ [CmakeLine (configure_args [''repo''] False),
                           CmakeLine [''--build'', path_str (BUILD_DIR [''repo'']), ''--target'',
                                      ''devilutionx_mpq'']],
                      files := example_files\<rparr>)"
    by blast
  from d1 d2 d3 d4 d5 nogit have r7: "main ?nogit [''repo''] [''repo''] False example_world
     = (Inl FileNotFoundError,
        example_world\<lparr>stderr := stderr example_world
                        @ [CmakeLine (configure_args [''repo''] False),
                           CmakeLine [''--build'', path_str (BUILD_DIR [''repo'']), ''--target'',
                                      ''devilutionx_mpq'']],
                      files := example_files\<rparr>)"
    by blast
  from a1 r1 r2 a2 r3 b1 r4 b2 r5 c2 r6 d4 d5 r7 show ?thesis
    by simp
qed

end
